theory Spec2Isabelle
  imports Main
begin

section \<open>Exceptions\<close>

text \<open>
  The Python exceptions the pipeline distinguishes. Each carries the text that
  \<^verbatim>\<open>str(e)\<close> yields. \<open>IntegrityError\<close> is the one exception class
  the persistence loop treats apart from the others; every constructor below
  is an instance of \<^verbatim>\<open>Exception\<close>.
\<close>

datatype py_exception =
    TimeoutException string
  | WebDriverException string
  | IntegrityError string
  | SQLAlchemyError string
  | ValueError string
  | IndexError string
  | OtherException string

fun str_exc :: "py_exception \<Rightarrow> string" where
  "str_exc (TimeoutException m) = m"
| "str_exc (WebDriverException m) = m"
| "str_exc (IntegrityError m) = m"
| "str_exc (SQLAlchemyError m) = m"
| "str_exc (ValueError m) = m"
| "str_exc (IndexError m) = m"
| "str_exc (OtherException m) = m"

section \<open>Rendered documents\<close>

text \<open>
  A parsed document as \<^verbatim>\<open>parse_job_listing\<close> and
  \<^verbatim>\<open>scrape_search_page\<close> observe it: a tag has a name, its CSS classes
  (the multi-valued \<^verbatim>\<open>class\<close> attribute), its other attributes (the items of
  a dictionary, so keys are looked up with \<open>map_of\<close>) and its children; a
  leaf is a string of text.
\<close>

datatype element =
    Tag (tag_name: string) (css_classes: "string list")
        (attrs: "(string \<times> string) list") (contents: "element list")
  | NavigableString string

text \<open>The descendants of an element in document order (the element itself excluded).\<close>

fun descendants :: "element \<Rightarrow> element list" where
  "descendants (Tag n cs as kids) = concat (map (\<lambda>k. k # descendants k) kids)"
| "descendants (NavigableString s) = []"

text \<open>
  The two kinds of filter the scraper passes to \<^verbatim>\<open>find\<close> and
  \<^verbatim>\<open>find_all\<close>: a CSS class (\<^verbatim>\<open>class_='x'\<close> or
  \<^verbatim>\<open>{'class': 'x'}\<close>) or another attribute with a given value
  (\<^verbatim>\<open>{'data-testid': 'x'}\<close>); \<open>AnyTag\<close> is a call with a tag name only.
\<close>

datatype selector = AnyTag | HasClass string | HasAttr string string

fun matches :: "string \<Rightarrow> selector \<Rightarrow> element \<Rightarrow> bool" where
  "matches name sel (NavigableString s) = False"
| "matches name AnyTag (Tag n cs as kids) = (n = name)"
| "matches name (HasClass c) (Tag n cs as kids) = (n = name \<and> c \<in> set cs)"
| "matches name (HasAttr k v) (Tag n cs as kids) = (n = name \<and> map_of as k = Some v)"

definition find_all :: "element \<Rightarrow> string \<Rightarrow> selector \<Rightarrow> element list" where
  "find_all e name sel = filter (matches name sel) (descendants e)"

definition find_first :: "element \<Rightarrow> string \<Rightarrow> selector \<Rightarrow> element option" where
  "find_first e name sel =
     (case find_all e name sel of [] \<Rightarrow> None | x # _ \<Rightarrow> Some x)"

text \<open>\<^verbatim>\<open>tag.get(key, default)\<close>: the attribute, or the default when it is absent.\<close>

fun attr_get :: "element \<Rightarrow> string \<Rightarrow> string \<Rightarrow> string" where
  "attr_get (Tag n cs as kids) k d = (case map_of as k of None \<Rightarrow> d | Some v \<Rightarrow> v)"
| "attr_get (NavigableString s) k d = d"

text \<open>\<^verbatim>\<open>key in tag.attrs\<close>\<close>

fun has_attr :: "element \<Rightarrow> string \<Rightarrow> bool" where
  "has_attr (Tag n cs as kids) k = (map_of as k \<noteq> None)"
| "has_attr (NavigableString s) k = False"

text \<open>
  \<^verbatim>\<open>get_text(strip=True)\<close>: every text leaf below the element, stripped of
  leading and trailing white space, the empty ones dropped, joined with nothing
  between them. White space is Python's for the ASCII range.
\<close>

definition is_space :: "char \<Rightarrow> bool" where
  "is_space c = (of_char c \<in> {9::nat, 10, 11, 12, 13, 28, 29, 30, 31, 32})"

definition strip :: "string \<Rightarrow> string" where
  "strip s = rev (dropWhile is_space (rev (dropWhile is_space s)))"

fun strings :: "element \<Rightarrow> string list" where
  "strings (NavigableString s) = [s]"
| "strings (Tag n cs as kids) = concat (map strings kids)"

definition get_text_strip :: "element \<Rightarrow> string" where
  "get_text_strip e = concat (filter (\<lambda>s. s \<noteq> []) (map strip (strings e)))"

text \<open>\<^verbatim>\<open>s.startswith('/')\<close>\<close>

definition startswith_slash :: "string \<Rightarrow> bool" where
  "startswith_slash s = (case s of [] \<Rightarrow> False | c # _ \<Rightarrow> c = CHR ''/'')"

section \<open>Raw listings and \<^verbatim>\<open>IndeedScraper.parse_job_listing\<close>\<close>

text \<open>The dictionary \<^verbatim>\<open>job_data\<close> that the extractor builds, key by key.\<close>

record raw_listing =
  job_title :: string
  job_board_url :: string
  company :: string
  location :: string
  salary_range :: "string option"
  description :: string
  job_board_source :: string
  requirements :: "string option"

text \<open>\<^verbatim>\<open>a.find(...)\<close>, and \<^verbatim>\<open>a.find(...)\<close> again with the fallback when the first is None.\<close>

definition find_or :: "element \<Rightarrow> string \<Rightarrow> selector \<Rightarrow> string \<Rightarrow> selector \<Rightarrow> element option" where
  "find_or e n1 s1 n2 s2 =
     (case find_first e n1 s1 of None \<Rightarrow> find_first e n2 s2 | Some x \<Rightarrow> Some x)"

text \<open>
  The title element of a card (\<^verbatim>\<open>h2.jobTitle\<close>, else
  \<^verbatim>\<open>a.jcs-JobTitle\<close>) and the element the title and the link are read from:
  \<^verbatim>\<open>title_elem.find('a') or title_elem\<close> (a tag is always true).
\<close>

definition title_elem_of :: "element \<Rightarrow> element option" where
  "title_elem_of job_element =
     find_or job_element ''h2'' (HasClass ''jobTitle'') ''a'' (HasClass ''jcs-JobTitle'')"

definition title_link_of :: "element \<Rightarrow> element" where
  "title_link_of title_elem =
     (case find_first title_elem ''a'' AnyTag of Some a \<Rightarrow> a | None \<Rightarrow> title_elem)"

text \<open>
  \<^verbatim>\<open>parse_job_listing\<close>, with \<^verbatim>\<open>self.base_url\<close> as first argument.
  The only early return is the missing title element. The calls made on the
  element (\<^verbatim>\<open>find\<close>, \<^verbatim>\<open>get\<close>, \<^verbatim>\<open>get_text\<close>) are total on a parsed
  document, so the handler of the surrounding \<^verbatim>\<open>try\<close> has no branch here.
\<close>

definition parse_job_listing :: "string \<Rightarrow> element \<Rightarrow> raw_listing option" where
  "parse_job_listing base job_element =
     (case title_elem_of job_element of
        None \<Rightarrow> None
      | Some title_elem \<Rightarrow>
          let title_link = title_link_of title_elem;
              job_link = attr_get title_link ''href'' '''';
              company_elem = find_or job_element ''span'' (HasClass ''companyName'')
                               ''span'' (HasAttr ''data-testid'' ''company-name'');
              location_elem = find_or job_element ''div'' (HasClass ''companyLocation'')
                               ''div'' (HasAttr ''data-testid'' ''text-location'');
              salary_elem = find_or job_element ''div'' (HasClass ''salary-snippet'')
                               ''div'' (HasAttr ''data-testid'' ''attribute_snippet_testid'');
              description_elem = find_or job_element ''div'' (HasClass ''job-snippet'')
                               ''div'' (HasClass ''underShelfFooter'')
          in Some \<lparr>
               job_title = get_text_strip title_link,
               job_board_url = (if startswith_slash job_link then base @ job_link else job_link),
               company = (case company_elem of Some c \<Rightarrow> get_text_strip c
                          | None \<Rightarrow> ''Unknown Company''),
               location = (case location_elem of Some l \<Rightarrow> get_text_strip l
                           | None \<Rightarrow> ''Location not specified''),
               salary_range = (case salary_elem of Some s \<Rightarrow> Some (get_text_strip s)
                               | None \<Rightarrow> None),
               description = (case description_elem of Some d \<Rightarrow> get_text_strip d
                              | None \<Rightarrow> ''''),
               job_board_source = ''indeed'',
               requirements = None \<rparr>)"

section \<open>The world outside the process\<close>

text \<open>
  What a run does to the outside, in order: a page requested through the browser
  session, the fixed pause inside \<^verbatim>\<open>scrape_search_page\<close>
  (\<^verbatim>\<open>time.sleep(self.delay_min)\<close>) and the rate limiter's pause
  (\<^verbatim>\<open>random_delay\<close>).
\<close>

datatype event = Get string | Sleep int | RandomDelay

text \<open>
  The browser and the site are not part of the program. Each call into them is a
  field of \<open>world\<close> that says whether the call raises, given the events so far
  (so the same URL may answer differently at different moments):
  starting Chrome (\<^verbatim>\<open>ChromeDriverManager().install()\<close>, \<^verbatim>\<open>webdriver.Chrome\<close>),
  \<^verbatim>\<open>driver.execute_script\<close>, \<^verbatim>\<open>driver.quit\<close>, \<^verbatim>\<open>driver.get\<close>,
  \<^verbatim>\<open>wait.until\<close> (a \<open>TimeoutException\<close> when the readiness marker never
  appears), the document \<^verbatim>\<open>driver.page_source\<close> parses to, and the sleep of
  \<^verbatim>\<open>random_delay\<close>.
\<close>

record world =
  chrome_start :: "py_exception option"
  execute_script :: "py_exception option"
  chrome_quit :: "py_exception option"
  driver_get :: "event list \<Rightarrow> string \<Rightarrow> py_exception option"
  wait_until :: "event list \<Rightarrow> string \<Rightarrow> py_exception option"
  page_source :: "event list \<Rightarrow> string \<Rightarrow> element"
  delay_fault :: "event list \<Rightarrow> py_exception option"

section \<open>\<^verbatim>\<open>BaseScraper\<close>\<close>

text \<open>
  The attributes of a scraper object, with the events it has caused and the
  exceptions it has logged with \<^verbatim>\<open>logger.error\<close>. The two time stamps
  \<^verbatim>\<open>scrape_start_time\<close> and \<^verbatim>\<open>scrape_end_time\<close> are only logged and are
  left out.
\<close>

record 'j base_scraper =
  delay_min :: int
  delay_max :: int
  jobs_scraped :: "'j list"
  trace :: "event list"
  error_log :: "py_exception list"

text \<open>
  \<^verbatim>\<open>random_delay\<close>: the pause is recorded unless the sleep raises. The first
  argument says whether it does.
\<close>

definition random_delay ::
  "(event list \<Rightarrow> py_exception option) \<Rightarrow> ('j, 'z) base_scraper_scheme
     \<Rightarrow> py_exception option \<times> ('j, 'z) base_scraper_scheme" where
  "random_delay fault s =
     (case fault (trace s) of
        Some e \<Rightarrow> (Some e, s)
      | None \<Rightarrow> (None, s\<lparr>trace := trace s @ [RandomDelay]\<rparr>))"

text \<open>Python's \<^verbatim>\<open>xs[:n]\<close>: a negative \<open>n\<close> counts from the end.\<close>

definition slice_to :: "int \<Rightarrow> 'a list \<Rightarrow> 'a list" where
  "slice_to n xs =
     (if 0 \<le> n then take (nat n) xs else take (nat (int (length xs) + n)) xs)"

text \<open>
  The abstract methods, as the class in use supplies them. Either may raise;
  \<open>scrape_search_page\<close> sees the events so far.
\<close>

record 'j overrides =
  build_search_url :: "string \<Rightarrow> string \<Rightarrow> py_exception + string"
  scrape_search_page :: "event list \<Rightarrow> string \<Rightarrow> py_exception + 'j list"
  sleep_fault :: "event list \<Rightarrow> py_exception option"

text \<open>
  The guard of the rate limiter,
  \<^verbatim>\<open>keyword != keywords[-1] or location != locations[-1]\<close>: the comparison is
  by value, the second operand is evaluated only when the first is false, and
  \<^verbatim>\<open>xs[-1]\<close> raises on an empty list.
\<close>

definition delay_due ::
  "string list \<Rightarrow> string list \<Rightarrow> string \<Rightarrow> string \<Rightarrow> py_exception + bool" where
  "delay_due keywords locations keyword loc =
     (if keywords = [] then Inl (IndexError ''list index out of range'')
      else if keyword \<noteq> last keywords then Inr True
      else if locations = [] then Inl (IndexError ''list index out of range'')
      else Inr (loc \<noteq> last locations))"

text \<open>
  The inner loop of \<^verbatim>\<open>BaseScraper.scrape\<close> over the locations that remain for
  one keyword. The result is the exception that left the loop, if any, and the
  object's state at that moment.
\<close>

fun scrape_locations ::
  "'j overrides \<Rightarrow> string list \<Rightarrow> string list \<Rightarrow> int \<Rightarrow> string \<Rightarrow> string list
     \<Rightarrow> 'j base_scraper \<Rightarrow> py_exception option \<times> 'j base_scraper" where
  "scrape_locations C keywords locations max_jobs keyword [] s = (None, s)"
| "scrape_locations C keywords locations max_jobs keyword (loc # rest) s =
     (if max_jobs \<le> int (length (jobs_scraped s)) then (None, s)
      else case build_search_url C keyword loc of
        Inl e \<Rightarrow> (Some e, s)
      | Inr url \<Rightarrow>
         (case scrape_search_page C (trace s) url of
            Inl e \<Rightarrow> (Some e, s\<lparr>trace := trace s @ [Get url]\<rparr>)
          | Inr jobs \<Rightarrow>
             (let s1 = s\<lparr>jobs_scraped := jobs_scraped s @ jobs,
                          trace := trace s @ [Get url]\<rparr>
              in case delay_due keywords locations keyword loc of
                   Inl e \<Rightarrow> (Some e, s1)
                 | Inr due \<Rightarrow>
                    if due
                    then (case random_delay (sleep_fault C) s1 of
                            (Some e, s2) \<Rightarrow> (Some e, s2)
                          | (None, s2) \<Rightarrow>
                              scrape_locations C keywords locations max_jobs keyword rest s2)
                    else scrape_locations C keywords locations max_jobs keyword rest s1)))"

text \<open>The outer loop over the keywords that remain.\<close>

fun scrape_keywords ::
  "'j overrides \<Rightarrow> string list \<Rightarrow> string list \<Rightarrow> int \<Rightarrow> string list
     \<Rightarrow> 'j base_scraper \<Rightarrow> py_exception option \<times> 'j base_scraper" where
  "scrape_keywords C keywords locations max_jobs [] s = (None, s)"
| "scrape_keywords C keywords locations max_jobs (keyword # rest) s =
     (case scrape_locations C keywords locations max_jobs keyword locations s of
        (Some e, s1) \<Rightarrow> (Some e, s1)
      | (None, s1) \<Rightarrow>
          if max_jobs \<le> int (length (jobs_scraped s1)) then (None, s1)
          else scrape_keywords C keywords locations max_jobs rest s1)"

text \<open>
  \<^verbatim>\<open>BaseScraper.scrape\<close>: the loops run inside \<^verbatim>\<open>try\<close>; the handler logs
  the exception; the return statement stands after the \<^verbatim>\<open>try\<close>. The result is
  what the caller gets (\<open>Inl\<close> would be an exception raised to it) and the
  object afterwards.
\<close>

definition scrape ::
  "'j overrides \<Rightarrow> string list \<Rightarrow> string list \<Rightarrow> int \<Rightarrow> 'j base_scraper
     \<Rightarrow> (py_exception + 'j list) \<times> 'j base_scraper" where
  "scrape C keywords locations max_jobs s =
     (case scrape_keywords C keywords locations max_jobs keywords (s\<lparr>jobs_scraped := []\<rparr>) of
        (Some e, s1) \<Rightarrow>
          (let s2 = s1\<lparr>error_log := error_log s1 @ [e]\<rparr>
           in (Inr (slice_to max_jobs (jobs_scraped s2)), s2))
      | (None, s1) \<Rightarrow> (Inr (slice_to max_jobs (jobs_scraped s1)), s1))"

section \<open>\<^verbatim>\<open>IndeedScraper\<close>\<close>

record indeed_scraper = "raw_listing base_scraper" +
  base_url :: string
  headless :: bool
  driver :: bool

text \<open>
  \<^verbatim>\<open>IndeedScraper()\<close> as the service constructs it: the defaults of
  \<^verbatim>\<open>__init__\<close>. The field \<open>driver\<close> says whether \<^verbatim>\<open>self.driver\<close>
  holds a session (is not None).
\<close>

definition IndeedScraper :: indeed_scraper where
  "IndeedScraper =
     \<lparr> delay_min = 2, delay_max = 5, jobs_scraped = [], trace = [], error_log = [],
       base_url = ''https://uk.indeed.com'', headless = True, driver = False \<rparr>"

text \<open>
  \<^verbatim>\<open>_init_driver\<close>: nothing when a session exists. When
  \<^verbatim>\<open>execute_script\<close> raises, \<^verbatim>\<open>self.driver\<close> is already assigned.
\<close>

definition init_driver :: "world \<Rightarrow> indeed_scraper \<Rightarrow> py_exception option \<times> indeed_scraper" where
  "init_driver w s =
     (if driver s then (None, s)
      else case chrome_start w of
        Some e \<Rightarrow> (Some e, s)
      | None \<Rightarrow> (execute_script w, s\<lparr>driver := True\<rparr>))"

text \<open>\<^verbatim>\<open>_close_driver\<close>: when \<^verbatim>\<open>quit\<close> raises, \<^verbatim>\<open>self.driver\<close> is not reset.\<close>

definition close_driver :: "world \<Rightarrow> indeed_scraper \<Rightarrow> py_exception option \<times> indeed_scraper" where
  "close_driver w s =
     (if driver s
      then (case chrome_quit w of
              Some e \<Rightarrow> (Some e, s)
            | None \<Rightarrow> (None, s\<lparr>driver := False\<rparr>))
      else (None, s))"

text \<open>
  \<^verbatim>\<open>urllib.parse.quote_plus\<close> on the bytes of the string: a space becomes
  \<open>+\<close>, letters, digits and \<open>_.-~\<close> stay, every other byte becomes \<open>%XX\<close>.
\<close>

definition always_safe :: "char \<Rightarrow> bool" where
  "always_safe c =
     (c \<in> set ''ABCDEFGHIJKLMNOPQRSTUVWXYZabcdefghijklmnopqrstuvwxyz0123456789_.-~'')"

definition hex_digit :: "nat \<Rightarrow> char" where
  "hex_digit n = ''0123456789ABCDEF'' ! (n mod 16)"

definition quote_plus :: "string \<Rightarrow> string" where
  "quote_plus s =
     concat (map (\<lambda>c. if c = CHR '' '' then ''+''
                      else if always_safe c then [c]
                      else [CHR ''%'', hex_digit (of_char c div 16), hex_digit (of_char c mod 16)]) s)"

definition indeed_build_search_url :: "indeed_scraper \<Rightarrow> string \<Rightarrow> string \<Rightarrow> string" where
  "indeed_build_search_url s keywords loc =
     base_url s @ ''/jobs?q='' @ quote_plus keywords @ ''&l='' @ quote_plus loc"

text \<open>
  The cards of a page: the primary selector, then the two fallbacks, each tried
  when the one before found nothing.
\<close>

definition job_cards :: "element \<Rightarrow> element list" where
  "job_cards soup =
     (let c1 = find_all soup ''div'' (HasClass ''job_seen_beacon'') in
      if c1 \<noteq> [] then c1
      else let c2 = find_all soup ''div'' (HasClass ''cardOutline'') in
        if c2 \<noteq> [] then c2
        else find_all soup ''td'' (HasClass ''resultContent''))"

text \<open>
  The body of the \<^verbatim>\<open>try\<close> of \<^verbatim>\<open>scrape_search_page\<close> up to the cards:
  the session, the page load, the wait for the readiness marker, the fixed
  pause (\<^verbatim>\<open>time.sleep\<close> raises on a negative length) and the parse of the
  page source.
\<close>

definition load_cards ::
  "world \<Rightarrow> string \<Rightarrow> indeed_scraper \<Rightarrow> (py_exception + element list) \<times> indeed_scraper" where
  "load_cards w url s =
     (case init_driver w s of
        (Some e, s1) \<Rightarrow> (Inl e, s1)
      | (None, s1) \<Rightarrow>
         (let s2 = s1\<lparr>trace := trace s1 @ [Get url]\<rparr> in
          case driver_get w (trace s1) url of
            Some e \<Rightarrow> (Inl e, s2)
          | None \<Rightarrow>
             (case wait_until w (trace s1) url of
                Some e \<Rightarrow> (Inl e, s2)
              | None \<Rightarrow>
                  if delay_min s2 < 0
                  then (Inl (ValueError ''sleep length must be non-negative''), s2)
                  else (Inr (job_cards (page_source w (trace s1) url)),
                        s2\<lparr>trace := trace s2 @ [Sleep (delay_min s2)]\<rparr>))))"

text \<open>
  \<^verbatim>\<open>scrape_search_page\<close>: \<^verbatim>\<open>jobs\<close> is still empty when the body above
  raises; the handler logs the exception and the function returns \<^verbatim>\<open>jobs\<close>.
  A card that parses to None is left out.
\<close>

definition indeed_scrape_search_page ::
  "world \<Rightarrow> string \<Rightarrow> indeed_scraper \<Rightarrow> raw_listing list \<times> indeed_scraper" where
  "indeed_scrape_search_page w url s =
     (case load_cards w url s of
        (Inl e, s1) \<Rightarrow> ([], s1\<lparr>error_log := error_log s1 @ [e]\<rparr>)
      | (Inr cards, s1) \<Rightarrow> (List.map_filter (parse_job_listing (base_url s1)) cards, s1))"

text \<open>The inner loop of \<^verbatim>\<open>IndeedScraper.scrape\<close>: the pause follows every page.\<close>

fun indeed_locations ::
  "world \<Rightarrow> int \<Rightarrow> string \<Rightarrow> string list \<Rightarrow> indeed_scraper
     \<Rightarrow> py_exception option \<times> indeed_scraper" where
  "indeed_locations w max_jobs keyword [] s = (None, s)"
| "indeed_locations w max_jobs keyword (loc # rest) s =
     (if max_jobs \<le> int (length (jobs_scraped s)) then (None, s)
      else case indeed_scrape_search_page w (indeed_build_search_url s keyword loc) s of
        (jobs, s1) \<Rightarrow>
          (case random_delay (delay_fault w) (s1\<lparr>jobs_scraped := jobs_scraped s1 @ jobs\<rparr>) of
             (Some e, s2) \<Rightarrow> (Some e, s2)
           | (None, s2) \<Rightarrow> indeed_locations w max_jobs keyword rest s2))"

fun indeed_keywords ::
  "world \<Rightarrow> int \<Rightarrow> string list \<Rightarrow> string list \<Rightarrow> indeed_scraper
     \<Rightarrow> py_exception option \<times> indeed_scraper" where
  "indeed_keywords w max_jobs locations [] s = (None, s)"
| "indeed_keywords w max_jobs locations (keyword # rest) s =
     (case indeed_locations w max_jobs keyword locations s of
        (Some e, s1) \<Rightarrow> (Some e, s1)
      | (None, s1) \<Rightarrow>
          if max_jobs \<le> int (length (jobs_scraped s1)) then (None, s1)
          else indeed_keywords w max_jobs locations rest s1)"

text \<open>
  \<^verbatim>\<open>IndeedScraper.scrape\<close>: \<^verbatim>\<open>try\<close> with \<^verbatim>\<open>finally\<close> and no handler.
  An exception of the body reaches the caller after the session is closed; an
  exception of \<^verbatim>\<open>_close_driver\<close> replaces whatever the body produced.
\<close>

definition indeed_scrape ::
  "world \<Rightarrow> string list \<Rightarrow> string list \<Rightarrow> int \<Rightarrow> indeed_scraper
     \<Rightarrow> (py_exception + raw_listing list) \<times> indeed_scraper" where
  "indeed_scrape w keywords locations max_jobs s =
     (let (r, s3) =
        (case init_driver w s of
           (Some e, s1) \<Rightarrow> (Inl e, s1)
         | (None, s1) \<Rightarrow>
            (case indeed_keywords w max_jobs locations keywords (s1\<lparr>jobs_scraped := []\<rparr>) of
               (Some e, s2) \<Rightarrow> (Inl e, s2)
             | (None, s2) \<Rightarrow> (Inr (slice_to max_jobs (jobs_scraped s2)), s2)))
      in case close_driver w s3 of
           (Some e, s4) \<Rightarrow> (Inl e, s4)
         | (None, s4) \<Rightarrow> (r, s4))"

section \<open>Storage\<close>

text \<open>
  A row of \<^verbatim>\<open>jobs\<close>: the columns the pipeline writes, the primary key and
  \<^verbatim>\<open>status\<close> with its default. (\<^verbatim>\<open>discovered_at\<close> and
  \<^verbatim>\<open>match_score\<close> are never read or written by the pipeline.)
\<close>

record job = raw_listing +
  job_id :: nat
  job_status :: string

text \<open>
  A row of \<^verbatim>\<open>scraper_logs\<close>. Its primary key is its position in the
  table. The columns \<^verbatim>\<open>jobs_found\<close>, \<^verbatim>\<open>jobs_added\<close> and
  \<^verbatim>\<open>status\<close> carry the prefix \<open>log_\<close> here, to keep them apart from the
  keys of the summary.
\<close>

record scraper_log =
  job_board :: string
  scrape_started_at :: "nat option"
  scrape_ended_at :: "nat option"
  log_jobs_found :: nat
  log_jobs_added :: nat
  log_status :: string
  error_message :: "string option"
  search_keywords :: string
  search_location :: string

record database =
  jobs_table :: "job list"
  scraper_logs :: "scraper_log list"
  now :: nat

text \<open>
  Whether a call into storage raises for a reason of storage's own: the commit
  that inserts the log row, the query and the commit for the listing at a given
  position of the scraped list, and the two commits that finalize the log row.
\<close>

record storage_faults =
  log_insert :: "py_exception option"
  job_query :: "nat \<Rightarrow> py_exception option"
  job_commit :: "nat \<Rightarrow> py_exception option"
  log_complete :: "py_exception option"
  log_failed :: "py_exception option"

text \<open>\<^verbatim>\<open>db.query(Job).filter(Job.job_board_url == url).first()\<close>\<close>

definition find_by_url :: "database \<Rightarrow> string \<Rightarrow> job option" where
  "find_by_url db url = List.find (\<lambda>j. job_board_url j = url) (jobs_table db)"

text \<open>
  \<^verbatim>\<open>Job(**job_data)\<close> as storage completes it: the primary key it assigns
  and the default of \<^verbatim>\<open>status\<close>.
\<close>

definition Job :: "nat \<Rightarrow> raw_listing \<Rightarrow> job" where
  "Job key job_data =
     \<lparr> job_title = job_title job_data,
       job_board_url = job_board_url job_data,
       company = company job_data,
       location = location job_data,
       salary_range = salary_range job_data,
       description = description job_data,
       job_board_source = job_board_source job_data,
       requirements = requirements job_data,
       job_id = key,
       job_status = ''pending'' \<rparr>"

text \<open>
  \<^verbatim>\<open>db.add(job)\<close>, \<^verbatim>\<open>db.commit()\<close>: the column
  \<^verbatim>\<open>job_board_url\<close> is declared unique, so storage refuses a second row
  with a URL it holds.
\<close>

definition insert_job :: "database \<Rightarrow> raw_listing \<Rightarrow> py_exception + database" where
  "insert_job db job_data =
     (if job_board_url job_data \<in> set (map job_board_url (jobs_table db))
      then Inl (IntegrityError ''UNIQUE constraint failed: jobs.job_board_url'')
      else Inr (db\<lparr>jobs_table := jobs_table db @ [Job (length (jobs_table db)) job_data]\<rparr>))"

section \<open>\<^verbatim>\<open>JobScraperService.scrape_and_save_indeed\<close>\<close>

record settings =
  scraping_keywords_list :: "string list"
  scraping_locations_list :: "string list"
  MAX_JOBS_PER_SCRAPE :: int

text \<open>The dictionary the service returns.\<close>

record summary =
  jobs_found :: nat
  jobs_added :: nat
  jobs_duplicate :: nat
  status :: string
  error :: "string option"

text \<open>An optional argument, replaced by the configured default when it is None.\<close>

definition or_default :: "'a option \<Rightarrow> 'a \<Rightarrow> 'a" where
  "or_default x d = (case x of None \<Rightarrow> d | Some v \<Rightarrow> v)"

text \<open>\<^verbatim>\<open>sep.join(xs)\<close>\<close>

fun join :: "string \<Rightarrow> string list \<Rightarrow> string" where
  "join sep [] = []"
| "join sep [x] = x"
| "join sep (x # y # ys) = x @ sep @ join sep (y # ys)"

text \<open>
  The two handlers of the loop over the scraped listings, on the state
  (database, \<^verbatim>\<open>jobs_added\<close>, \<^verbatim>\<open>jobs_duplicate\<close>): both roll back, and
  an \<open>IntegrityError\<close> counts a duplicate.
\<close>

definition save_handler :: "py_exception \<Rightarrow> database \<times> nat \<times> nat \<Rightarrow> database \<times> nat \<times> nat" where
  "save_handler e st =
     (case st of (db, added, dup) \<Rightarrow>
        (case e of IntegrityError m \<Rightarrow> (db, added, Suc dup) | _ \<Rightarrow> (db, added, dup)))"

text \<open>One turn of the loop, for the listing at position \<open>i\<close>.\<close>

definition save_job ::
  "storage_faults \<Rightarrow> nat \<Rightarrow> raw_listing \<Rightarrow> database \<times> nat \<times> nat \<Rightarrow> database \<times> nat \<times> nat" where
  "save_job F i job_data st =
     (case st of (db, added, dup) \<Rightarrow>
        (case job_query F i of
           Some e \<Rightarrow> save_handler e st
         | None \<Rightarrow>
            (case find_by_url db (job_board_url job_data) of
               Some existing_job \<Rightarrow> (db, added, Suc dup)
             | None \<Rightarrow>
                (case job_commit F i of
                   Some e \<Rightarrow> save_handler e st
                 | None \<Rightarrow>
                    (case insert_job db job_data of
                       Inl e \<Rightarrow> save_handler e st
                     | Inr db' \<Rightarrow> (db', Suc added, dup))))))"

fun save_jobs ::
  "storage_faults \<Rightarrow> nat \<Rightarrow> raw_listing list \<Rightarrow> database \<times> nat \<times> nat \<Rightarrow> database \<times> nat \<times> nat" where
  "save_jobs F i [] st = st"
| "save_jobs F i (job_data # rest) st = save_jobs F (Suc i) rest (save_job F i job_data st)"

text \<open>
  The log row the service creates: \<^verbatim>\<open>ScraperLog(job_board="indeed",
  status="running", search_keywords=..., search_location=...)\<close>, with the
  defaults of the other columns (the start time is the server's clock, the end
  time has no default).
\<close>

definition ScraperLog :: "nat \<Rightarrow> string list \<Rightarrow> string list \<Rightarrow> scraper_log" where
  "ScraperLog clock keywords locations =
     \<lparr> job_board = ''indeed'', scrape_started_at = Some clock,
       scrape_ended_at = None, log_jobs_found = 0, log_jobs_added = 0,
       log_status = ''running'', error_message = None,
       search_keywords = join '', '' keywords,
       search_location = join '', '' locations \<rparr>"

text \<open>
  The body of the outer \<^verbatim>\<open>try\<close>, for the log row at position \<open>k\<close>: the
  scrape, the loop, the update of the log row and its commit. A commit that
  raises leaves the row as it was.
\<close>

definition scrape_and_save_body ::
  "world \<Rightarrow> storage_faults \<Rightarrow> indeed_scraper \<Rightarrow> database \<Rightarrow> nat \<Rightarrow> string list \<Rightarrow> string list \<Rightarrow> int
     \<Rightarrow> (py_exception + summary) \<times> database" where
  "scrape_and_save_body w F sc db k keywords locations max_jobs =
     (case fst (indeed_scrape w keywords locations max_jobs sc) of
        Inl e \<Rightarrow> (Inl e, db)
      | Inr scraped \<Rightarrow>
         (case save_jobs F 0 scraped (db, 0, 0) of
            (db1, added, dup) \<Rightarrow>
              (case log_complete F of
                 Some e \<Rightarrow> (Inl e, db1)
               | None \<Rightarrow>
                  (Inr \<lparr> jobs_found = length scraped, jobs_added = added,
                         jobs_duplicate = dup, status = ''success'', error = None \<rparr>,
                   db1\<lparr>scraper_logs := (scraper_logs db1)
                      [k := (scraper_logs db1 ! k)
                         \<lparr>log_jobs_found := length scraped, log_jobs_added := added,
                          log_status := ''completed''\<rparr>]\<rparr>))))"

text \<open>
  The handler of the outer \<^verbatim>\<open>try\<close>: the log row is marked failed with the
  text of the exception and committed, and a summary with zero counts is
  returned. The commit has no handler of its own.
\<close>

definition outer_handler ::
  "storage_faults \<Rightarrow> nat \<Rightarrow> py_exception \<Rightarrow> database \<Rightarrow> (py_exception + summary) \<times> database" where
  "outer_handler F k e db =
     (case log_failed F of
        Some e' \<Rightarrow> (Inl e', db)
      | None \<Rightarrow>
         (Inr \<lparr> jobs_found = 0, jobs_added = 0, jobs_duplicate = 0,
                status = ''error'', error = Some (str_exc e) \<rparr>,
          db\<lparr>scraper_logs := (scraper_logs db)
             [k := (scraper_logs db ! k)
                \<lparr>log_status := ''failed'', error_message := Some (str_exc e)\<rparr>]\<rparr>))"

text \<open>
  \<^verbatim>\<open>scrape_and_save_indeed\<close>, on the service's scraper object \<open>sc\<close> and
  its database session. \<open>Inl\<close> is an exception raised to the caller: the
  commit of the new log row stands before the \<^verbatim>\<open>try\<close>.
\<close>

definition scrape_and_save_indeed ::
  "world \<Rightarrow> storage_faults \<Rightarrow> settings \<Rightarrow> indeed_scraper \<Rightarrow> database
     \<Rightarrow> string list option \<Rightarrow> string list option \<Rightarrow> int option
     \<Rightarrow> (py_exception + summary) \<times> database" where
  "scrape_and_save_indeed w F cfg sc db keywords locations max_jobs =
     (let keywords = or_default keywords (scraping_keywords_list cfg);
          locations = or_default locations (scraping_locations_list cfg);
          max_jobs = or_default max_jobs (MAX_JOBS_PER_SCRAPE cfg);
          scraper_log = ScraperLog (now db) keywords locations
      in case log_insert F of
           Some e \<Rightarrow> (Inl e, db)
         | None \<Rightarrow>
            (let k = length (scraper_logs db);
                 db0 = db\<lparr>scraper_logs := scraper_logs db @ [scraper_log]\<rparr>
             in case scrape_and_save_body w F sc db0 k keywords locations max_jobs of
                  (Inr result, db1) \<Rightarrow> (Inr result, db1)
                | (Inl e, db1) \<Rightarrow> outer_handler F k e db1))"

section \<open>Observations on a run\<close>

text \<open>The pages requested, in order.\<close>

fun requests :: "event list \<Rightarrow> string list" where
  "requests [] = []"
| "requests (Get u # es) = u # requests es"
| "requests (Sleep d # es) = requests es"
| "requests (RandomDelay # es) = requests es"

text \<open>The URLs storage holds, and the rows it holds for one URL.\<close>

definition stored_urls :: "database \<Rightarrow> string list" where
  "stored_urls db = map job_board_url (jobs_table db)"

definition rows_for :: "database \<Rightarrow> string \<Rightarrow> job list" where
  "rows_for db u = filter (\<lambda>j. job_board_url j = u) (jobs_table db)"


section \<open>Concrete inputs\<close>

text \<open>
  Four cards as the site renders them: one with a link that starts with a slash
  and a company, one whose title link has no \<^verbatim>\<open>href\<close>, one without a title
  element, and one with a relative link that does not start with a slash.
\<close>

definition card_engineer :: element where
  "card_engineer =
     Tag ''div'' [''job_seen_beacon''] []
       [Tag ''h2'' [''jobTitle''] []
          [Tag ''a'' [''jcs-JobTitle''] [(''href'', ''/rc/clk?jk=1'')]
             [NavigableString '' Graduate Engineer '']],
        Tag ''span'' [] [(''data-testid'', ''company-name'')] [NavigableString ''Acme'']]"

definition card_technician :: element where
  "card_technician =
     Tag ''div'' [''job_seen_beacon''] []
       [Tag ''h2'' [''jobTitle''] [] [Tag ''a'' [] [] [NavigableString ''Technician'']]]"

definition card_untitled :: element where
  "card_untitled =
     Tag ''div'' [''job_seen_beacon''] []
       [Tag ''span'' [''companyName''] [] [NavigableString ''Nobody'']]"


definition page_of :: "element list \<Rightarrow> element" where
  "page_of cards = Tag ''[document]'' [] [] [Tag ''body'' [] [] cards]"

text \<open>The listings the first two cards parse to.\<close>

definition listing_engineer :: raw_listing where
  "listing_engineer =
     \<lparr> job_title = ''Graduate Engineer'',
       job_board_url = ''https://uk.indeed.com/rc/clk?jk=1'',
       company = ''Acme'', location = ''Location not specified'', salary_range = None,
       description = '''', job_board_source = ''indeed'', requirements = None \<rparr>"

definition listing_technician :: raw_listing where
  "listing_technician =
     \<lparr> job_title = ''Technician'', job_board_url = '''',
       company = ''Unknown Company'', location = ''Location not specified'',
       salary_range = None, description = '''', job_board_source = ''indeed'',
       requirements = None \<rparr>"

text \<open>A world in which nothing raises and the site answers a URL with a fixed page.\<close>

definition site_world :: "(string \<Rightarrow> element) \<Rightarrow> world" where
  "site_world site =
     \<lparr> chrome_start = None, execute_script = None, chrome_quit = None,
       driver_get = (\<lambda>h u. None), wait_until = (\<lambda>h u. None),
       page_source = (\<lambda>h u. site u), delay_fault = (\<lambda>h. None) \<rparr>"

text \<open>A world in which the readiness marker never appears on any page.\<close>

definition timeout_world :: world where
  "timeout_world =
     \<lparr> chrome_start = None, execute_script = None, chrome_quit = None,
       driver_get = (\<lambda>h u. None),
       wait_until = (\<lambda>h u. Some (TimeoutException ''Message: '')),
       page_source = (\<lambda>h u. page_of []), delay_fault = (\<lambda>h. None) \<rparr>"

text \<open>A world in which Chrome cannot be started.\<close>

definition broken_chrome :: world where
  "broken_chrome =
     \<lparr> chrome_start = Some (WebDriverException ''unable to obtain driver for chrome''),
       execute_script = None, chrome_quit = None,
       driver_get = (\<lambda>h u. None), wait_until = (\<lambda>h u. None),
       page_source = (\<lambda>h u. page_of []), delay_fault = (\<lambda>h. None) \<rparr>"

text \<open>
  A site that answers the search for \<open>a\<close> in \<open>x\<close> with the first card and
  every other search with the second.
\<close>

definition two_jobs_site :: "string \<Rightarrow> element" where
  "two_jobs_site u =
     (if u = ''https://uk.indeed.com/jobs?q=a&l=x'' then page_of [card_engineer]
      else page_of [card_technician])"

definition no_faults :: storage_faults where
  "no_faults =
     \<lparr> log_insert = None, job_query = (\<lambda>i. None), job_commit = (\<lambda>i. None),
       log_complete = None, log_failed = None \<rparr>"

definition empty_db :: database where
  "empty_db = \<lparr> jobs_table = [], scraper_logs = [], now = 0 \<rparr>"

text \<open>Storage after a first run that found and stored the first listing.\<close>

definition stored_engineer :: database where
  "stored_engineer =
     \<lparr> jobs_table = [Job 0 listing_engineer],
       scraper_logs = [(ScraperLog 0 [''a''] [''x''])
                         \<lparr>log_jobs_found := 1, log_jobs_added := 1, log_status := ''completed''\<rparr>],
       now = 0 \<rparr>"

text \<open>Storage that refuses every commit of a listing for a reason of its own.\<close>

definition commit_refused :: storage_faults where
  "commit_refused =
     \<lparr> log_insert = None, job_query = (\<lambda>i. None),
       job_commit = (\<lambda>i. Some (SQLAlchemyError ''value too long for type character varying(255)'')),
       log_complete = None, log_failed = None \<rparr>"



text \<open>The defaults of \<^verbatim>\<open>Settings\<close>.\<close>

definition default_settings :: settings where
  "default_settings =
     \<lparr> scraping_keywords_list = [''software engineer'', ''backend developer'', ''python developer''],
       scraping_locations_list = [''United Kingdom'', ''London'', ''Remote''],
       MAX_JOBS_PER_SCRAPE = 50 \<rparr>"

text \<open>
  A class over \<^verbatim>\<open>BaseScraper\<close> whose pages each hold one listing, the URL
  itself, and one whose second page raises.
\<close>

definition echo_site :: "string overrides" where
  "echo_site =
     \<lparr> build_search_url = (\<lambda>k l. Inr (k @ ''/'' @ l)),
       scrape_search_page = (\<lambda>h u. Inr [u]),
       sleep_fault = (\<lambda>h. None) \<rparr>"

definition flaky_site :: "string overrides" where
  "flaky_site =
     \<lparr> build_search_url = (\<lambda>k l. Inr (k @ ''/'' @ l)),
       scrape_search_page = (\<lambda>h u. if h = [] then Inr [u]
                                     else Inl (WebDriverException ''net::ERR'')),
       sleep_fault = (\<lambda>h. None) \<rparr>"

definition busy_site :: "string \<Rightarrow> element" where
  "busy_site u = page_of [card_engineer, card_technician, card_untitled]"

definition new_scraper :: "string base_scraper" where
  "new_scraper = \<lparr> delay_min = 2, delay_max = 5, jobs_scraped = [], trace = [], error_log = [] \<rparr>"

section \<open>The loops of \<^verbatim>\<open>BaseScraper.scrape\<close>\<close>

lemma random_delay_jobs:
  "random_delay f s = (r, s') \<Longrightarrow> jobs_scraped s' = jobs_scraped s \<and> error_log s' = error_log s"
  by (auto simp: random_delay_def split: option.splits)

lemma scrape_locations_grows:
  "scrape_locations C K L n kw ls s = (r, s') \<Longrightarrow>
     length (jobs_scraped s) \<le> length (jobs_scraped s') \<and> error_log s' = error_log s"
proof (induction ls arbitrary: s)
  case Nil
  then show ?case by simp
next
  case (Cons l ls)
  show ?case
  proof (cases "n \<le> int (length (jobs_scraped s))")
    case True
    with Cons.prems show ?thesis by simp
  next
    case False
    with Cons.prems Cons.IH show ?thesis
      by (fastforce simp: Let_def split: sum.splits if_splits prod.splits option.splits
            dest!: random_delay_jobs)
  qed
qed

lemma scrape_keywords_grows:
  "scrape_keywords C K L n ks s = (r, s') \<Longrightarrow>
     length (jobs_scraped s) \<le> length (jobs_scraped s') \<and> error_log s' = error_log s"
proof (induction ks arbitrary: s)
  case Nil
  then show ?case by simp
next
  case (Cons k ks)
  from Cons.prems Cons.IH show ?case
    by (fastforce split: prod.splits option.splits if_splits dest!: scrape_locations_grows)
qed

lemma length_slice_to: "0 \<le> n \<Longrightarrow> int (length (slice_to n xs)) \<le> n"
  by (auto simp: slice_to_def)

lemma slice_to_Nil: "slice_to n [] = []"
  by (simp add: slice_to_def)

lemma scrape_locations_capped:
  "n \<le> int (length (jobs_scraped s)) \<Longrightarrow> scrape_locations C K L n kw ls s = (None, s)"
  by (cases ls) auto

lemma scrape_keywords_capped:
  "n \<le> int (length (jobs_scraped s)) \<Longrightarrow> scrape_keywords C K L n ks s = (None, s)"
  by (cases ks) (auto simp: scrape_locations_capped)

lemma scrape_returns:
  "fst (scrape C K L n s) = Inr (slice_to n (jobs_scraped (snd (scrape C K L n s))))"
  by (simp add: scrape_def Let_def split: prod.splits option.splits)

lemma scrape_error_log:
  "error_log (snd (scrape C K L n s)) =
     error_log s @ (case fst (scrape_keywords C K L n K (s\<lparr>jobs_scraped := []\<rparr>)) of
                      None \<Rightarrow> [] | Some e \<Rightarrow> [e])"
  by (auto simp: scrape_def Let_def split: prod.splits option.splits dest!: scrape_keywords_grows)

lemma scrape_capped:
  "n \<le> 0 \<Longrightarrow> scrape C K L n s = (Inr [], s\<lparr>jobs_scraped := []\<rparr>)"
  by (simp add: scrape_def scrape_keywords_capped slice_to_Nil)

lemma scrape_length: "\<exists>xs. fst (scrape C K L n s) = Inr xs \<and> int (length xs) \<le> max n 0"
proof (cases "n \<le> 0")
  case True
  then show ?thesis by (simp add: scrape_capped)
next
  case False
  then have "int (length (slice_to n (jobs_scraped (snd (scrape C K L n s))))) \<le> n"
    by (intro length_slice_to) simp
  with False show ?thesis by (simp add: scrape_returns)
qed

section \<open>The loops of \<^verbatim>\<open>IndeedScraper.scrape\<close>\<close>

lemma requests_append: "requests (a @ b) = requests a @ requests b"
  by (induction a rule: requests.induct) auto

lemma init_driver_snd:
  "jobs_scraped (snd (init_driver w s)) = jobs_scraped s \<and>
   trace (snd (init_driver w s)) = trace s \<and>
   base_url (snd (init_driver w s)) = base_url s \<and>
   delay_min (snd (init_driver w s)) = delay_min s \<and>
   error_log (snd (init_driver w s)) = error_log s"
  by (simp add: init_driver_def split: option.splits)

lemma init_driver_ok: "fst (init_driver w s) = None \<Longrightarrow> driver (snd (init_driver w s))"
  by (simp add: init_driver_def split: option.splits if_splits)

lemma init_driver_started: "driver s \<Longrightarrow> init_driver w s = (None, s)"
  by (simp add: init_driver_def)

lemma search_page_keeps:
  assumes "indeed_scrape_search_page w url s = (jobs, s')" and "driver s"
  shows "jobs_scraped s' = jobs_scraped s \<and> base_url s' = base_url s \<and> driver s' \<and>
         requests (trace s') = requests (trace s) @ [url]"
  using assms
  by (auto simp: indeed_scrape_search_page_def load_cards_def init_driver_def Let_def requests_append
           split: prod.splits sum.splits option.splits if_splits)

lemma random_delay_keeps:
  "random_delay f s = (r, s') \<Longrightarrow>
     jobs_scraped s' = jobs_scraped s \<and> base_url s' = base_url s \<and> driver s' = driver s \<and>
     requests (trace s') = requests (trace s)"
  by (auto simp: random_delay_def requests_append split: option.splits)

lemma indeed_locations_capped:
  "n \<le> int (length (jobs_scraped s)) \<Longrightarrow> indeed_locations w n kw ls s = (None, s)"
  by (cases ls) auto

lemma indeed_keywords_capped:
  "n \<le> int (length (jobs_scraped s)) \<Longrightarrow> indeed_keywords w n L ks s = (None, s)"
  by (cases ks) (auto simp: indeed_locations_capped)

lemma indeed_locations_requests:
  assumes "indeed_locations w n kw ls s = (r, s')" and "driver s"
  shows "length (jobs_scraped s) \<le> length (jobs_scraped s') \<and> base_url s' = base_url s \<and> driver s' \<and>
         (r = None \<and> int (length (jobs_scraped s')) < n \<longrightarrow>
            requests (trace s') = requests (trace s) @ map (indeed_build_search_url s kw) ls)"
  using assms
proof (induction ls arbitrary: s)
  case Nil
  then show ?case by simp
next
  case (Cons l ls)
  show ?case
  proof (cases "n \<le> int (length (jobs_scraped s))")
    case True
    with Cons.prems show ?thesis by simp
  next
    case False
    obtain jobs s1 where p: "indeed_scrape_search_page w (indeed_build_search_url s kw l) s = (jobs, s1)"
      by (cases "indeed_scrape_search_page w (indeed_build_search_url s kw l) s")
    obtain r2 s2 where d: "random_delay (delay_fault w) (s1\<lparr>jobs_scraped := jobs_scraped s1 @ jobs\<rparr>) = (r2, s2)"
      by (cases "random_delay (delay_fault w) (s1\<lparr>jobs_scraped := jobs_scraped s1 @ jobs\<rparr>)")
    note k1 = search_page_keeps [OF p \<open>driver s\<close>]
    note k2 = random_delay_keeps [OF d]
    show ?thesis
    proof (cases r2)
      case (Some e)
      with False p d Cons.prems k1 k2 show ?thesis by auto
    next
      case None
      with False p d Cons.prems have rec: "indeed_locations w n kw ls s2 = (r, s')" by simp
      from k1 k2 have "driver s2" by simp
      note ih = Cons.IH [OF rec this]
      have u: "indeed_build_search_url s2 kw = indeed_build_search_url s kw"
        using k1 k2 by (auto simp: indeed_build_search_url_def fun_eq_iff)
      from ih k1 k2 u show ?thesis by auto
    qed
  qed
qed

lemma indeed_keywords_requests:
  assumes "indeed_keywords w n L ks s = (r, s')" and "driver s"
  shows "length (jobs_scraped s) \<le> length (jobs_scraped s') \<and> base_url s' = base_url s \<and> driver s' \<and>
         (r = None \<and> int (length (jobs_scraped s')) < n \<longrightarrow>
            requests (trace s') = requests (trace s) @
              map (\<lambda>(k, l). indeed_build_search_url s k l) (List.product ks L))"
  using assms
proof (induction ks arbitrary: s)
  case Nil
  then show ?case by simp
next
  case (Cons k ks)
  obtain r1 s1 where l: "indeed_locations w n k L s = (r1, s1)"
    by (cases "indeed_locations w n k L s")
  note k1 = indeed_locations_requests [OF l \<open>driver s\<close>]
  show ?case
  proof (cases "r1 = None \<and> \<not> n \<le> int (length (jobs_scraped s1))")
    case False
    with l Cons.prems k1 show ?thesis by (auto split: option.splits if_splits)
  next
    case True
    with l Cons.prems have rec: "indeed_keywords w n L ks s1 = (r, s')" by simp
    from k1 have "driver s1" by simp
    note ih = Cons.IH [OF rec this]
    have u: "\<And>k l. indeed_build_search_url s1 k l = indeed_build_search_url s k l"
      using k1 by (auto simp: indeed_build_search_url_def)
    from ih k1 True u show ?thesis by (auto simp: o_def)
  qed
qed

lemma scrape_jobs_scraped:
  "jobs_scraped (snd (scrape C K L n s)) =
     jobs_scraped (snd (scrape_keywords C K L n K (s\<lparr>jobs_scraped := []\<rparr>)))"
  by (simp add: scrape_def Let_def split: prod.splits option.splits)


lemma flaky_run:
  "scrape flaky_site [''a'', ''b''] [''x'', ''y''] 10 new_scraper =
     (Inr [''a/x''],
      \<lparr> delay_min = 2, delay_max = 5, jobs_scraped = [''a/x''],
        trace = [Get ''a/x'', RandomDelay, Get ''a/y''],
        error_log = [WebDriverException ''net::ERR''] \<rparr>)"
  by (simp add: scrape_def flaky_site_def new_scraper_def random_delay_def slice_to_def
        delay_due_def)


lemma close_driver_snd:
  "jobs_scraped (snd (close_driver w s)) = jobs_scraped s \<and>
   trace (snd (close_driver w s)) = trace s \<and>
   base_url (snd (close_driver w s)) = base_url s \<and>
   error_log (snd (close_driver w s)) = error_log s"
  by (simp add: close_driver_def split: option.splits)

lemma indeed_scrape_Inr:
  assumes "fst (indeed_scrape w K L n sc) = Inr xs"
  shows "fst (init_driver w sc) = None \<and>
         fst (indeed_keywords w n L K (snd (init_driver w sc)\<lparr>jobs_scraped := []\<rparr>)) = None \<and>
         xs = slice_to n (jobs_scraped (snd (indeed_keywords w n L K (snd (init_driver w sc)\<lparr>jobs_scraped := []\<rparr>)))) \<and>
         trace (snd (indeed_scrape w K L n sc)) =
           trace (snd (indeed_keywords w n L K (snd (init_driver w sc)\<lparr>jobs_scraped := []\<rparr>))) \<and>
         jobs_scraped (snd (indeed_scrape w K L n sc)) =
           jobs_scraped (snd (indeed_keywords w n L K (snd (init_driver w sc)\<lparr>jobs_scraped := []\<rparr>)))"
proof -
  obtain r1 s1 where i: "init_driver w sc = (r1, s1)" by (cases "init_driver w sc")
  obtain r2 s2 where k: "indeed_keywords w n L K (s1\<lparr>jobs_scraped := []\<rparr>) = (r2, s2)"
    by (cases "indeed_keywords w n L K (s1\<lparr>jobs_scraped := []\<rparr>)")
  show ?thesis
  proof (cases r1)
    case (Some e)
    with assms i show ?thesis
      by (simp add: indeed_scrape_def split: prod.splits option.splits)
  next
    case None
    note r1 = this
    show ?thesis
    proof (cases r2)
      case (Some e)
      with assms i k r1 show ?thesis
        by (simp add: indeed_scrape_def split: prod.splits option.splits)
    next
      case None
      have c: "jobs_scraped (snd (close_driver w s2)) = jobs_scraped s2"
              "trace (snd (close_driver w s2)) = trace s2"
        using close_driver_snd [of w s2] by simp_all
      from assms i k r1 None c show ?thesis
        by (auto simp: indeed_scrape_def split: prod.splits option.splits)
    qed
  qed
qed

lemma indeed_scrape_length:
  assumes "fst (indeed_scrape w K L n sc) = Inr xs"
  shows "int (length xs) \<le> max n 0"
proof (cases "n \<le> 0")
  case True
  then have "indeed_keywords w n L K (snd (init_driver w sc)\<lparr>jobs_scraped := []\<rparr>) =
      (None, snd (init_driver w sc)\<lparr>jobs_scraped := []\<rparr>)"
    by (intro indeed_keywords_capped) simp
  with indeed_scrape_Inr [OF assms] show ?thesis by (simp add: slice_to_Nil)
next
  case False
  with indeed_scrape_Inr [OF assms] length_slice_to [of n] show ?thesis by simp
qed

lemma indeed_scrape_capped_trace:
  assumes "n \<le> 0"
  shows "trace (snd (indeed_scrape w K L n sc)) = trace sc"
proof -
  have k: "\<And>s. indeed_keywords w n L K (s\<lparr>jobs_scraped := []\<rparr>) = (None, s\<lparr>jobs_scraped := []\<rparr>)"
    using assms by (intro indeed_keywords_capped) simp
  obtain r1 s1 where i: "init_driver w sc = (r1, s1)" by (cases "init_driver w sc")
  with init_driver_snd [of w sc] have t: "trace s1 = trace sc" by simp
  have c: "\<And>s. trace (snd (close_driver w s)) = trace s" using close_driver_snd by simp
  show ?thesis
    using i t k c [of s1] c [of "s1\<lparr>jobs_scraped := []\<rparr>"]
    by (cases r1) (auto simp: indeed_scrape_def split: prod.splits option.splits)
qed

section \<open>Concrete runs\<close>

lemmas find_defs = title_elem_of_def title_link_of_def find_or_def find_first_def find_all_def
  get_text_strip_def strip_def is_space_def startswith_slash_def

lemma parse_engineer: "parse_job_listing ''https://uk.indeed.com'' card_engineer = Some listing_engineer"
  by (simp add: parse_job_listing_def find_defs card_engineer_def listing_engineer_def Let_def)

lemma parse_technician: "parse_job_listing ''https://uk.indeed.com'' card_technician = Some listing_technician"
  by (simp add: parse_job_listing_def find_defs card_technician_def listing_technician_def Let_def)

lemma parse_untitled: "parse_job_listing b card_untitled = None"
  by (simp add: parse_job_listing_def find_defs card_untitled_def)

lemma cards_busy: "job_cards (busy_site u) = [card_engineer, card_technician, card_untitled]"
  by (simp add: job_cards_def busy_site_def page_of_def find_all_def card_engineer_def
        card_technician_def card_untitled_def)

lemma cards_two_jobs:
  "job_cards (two_jobs_site u) =
     (if u = ''https://uk.indeed.com/jobs?q=a&l=x'' then [card_engineer] else [card_technician])"
  by (simp add: job_cards_def two_jobs_site_def page_of_def find_all_def card_engineer_def
        card_technician_def)

lemma search_site:
  assumes "driver s" and "0 \<le> delay_min s"
  shows "indeed_scrape_search_page (site_world site) url s =
           (List.map_filter (parse_job_listing (base_url s)) (job_cards (site url)),
            s\<lparr>trace := trace s @ [Get url, Sleep (delay_min s)]\<rparr>)"
  using assms
  by (simp add: indeed_scrape_search_page_def load_cards_def init_driver_def site_world_def)

lemma site_world_sel:
  "chrome_start (site_world site) = None" "execute_script (site_world site) = None"
  "chrome_quit (site_world site) = None" "delay_fault (site_world site) h = None"
  by (simp_all add: site_world_def)

lemmas run_defs = indeed_scrape_def init_driver_def close_driver_def random_delay_def
  slice_to_def indeed_build_search_url_def quote_plus_def always_safe_def IndeedScraper_def
  site_world_sel List.map_filter_simps

lemma scraper_sel:
  "trace IndeedScraper = []" "trace new_scraper = []" "jobs_scraped IndeedScraper = []"
  "error_log new_scraper = []" "driver IndeedScraper = False"
  by (simp_all add: IndeedScraper_def new_scraper_def)

lemma busy_run:
  "indeed_scrape (site_world busy_site) [''a''] [''x''] 1 IndeedScraper =
     (Inr [listing_engineer],
      IndeedScraper\<lparr>jobs_scraped := [listing_engineer, listing_technician],
         trace := [Get ''https://uk.indeed.com/jobs?q=a&l=x'', Sleep 2, RandomDelay]\<rparr>)"
  by (simp add: run_defs search_site cards_busy parse_engineer parse_technician parse_untitled)

section \<open>The base class never raises\<close>

text \<open>
  C9. \<^verbatim>\<open>BaseScraper.scrape\<close> returns normally for every input and every
  fault of the methods it calls inside its loops: the caller gets the listings
  accumulated up to the fault, cut to \<^verbatim>\<open>max_jobs\<close>, and the fault itself
  is only appended to the log.
\<close>

theorem base_scrape_never_raises:
  "fst (scrape C K L n s) =
     Inr (slice_to n (jobs_scraped (snd (scrape_keywords C K L n K (s\<lparr>jobs_scraped := []\<rparr>))))) \<and>
   error_log (snd (scrape C K L n s)) =
     error_log s @ (case fst (scrape_keywords C K L n K (s\<lparr>jobs_scraped := []\<rparr>)) of
                      None \<Rightarrow> [] | Some e \<Rightarrow> [e])"
  using scrape_returns [of C K L n s] scrape_jobs_scraped [of C K L n s]
    scrape_error_log [of C K L n s] by simp


theorem base_scrape_never_raises_witness:
  "fst (scrape flaky_site [''a'', ''b''] [''x'', ''y''] 10 new_scraper) = Inr [''a/x''] \<and>
   error_log (snd (scrape flaky_site [''a'', ''b''] [''x'', ''y''] 10 new_scraper)) =
     [WebDriverException ''net::ERR'']"
  using base_scrape_never_raises [of flaky_site "[''a'', ''b'']" "[''x'', ''y'']" 10 new_scraper]
  by (simp add: flaky_run)


section \<open>The cap on the number of listings\<close>

lemma indeed_scrape_capped:
  assumes "n \<le> 0" and "chrome_start w = None" and "execute_script w = None"
    and "chrome_quit w = None"
  shows "fst (indeed_scrape w K L n sc) = Inr []"
proof -
  obtain s1 where i: "init_driver w sc = (None, s1)"
    using assms(2,3) by (cases "driver sc") (simp_all add: init_driver_def)
  have k: "indeed_keywords w n L K (s1\<lparr>jobs_scraped := []\<rparr>) = (None, s1\<lparr>jobs_scraped := []\<rparr>)"
    using assms(1) by (intro indeed_keywords_capped) simp
  obtain s3 where c: "close_driver w (s1\<lparr>jobs_scraped := []\<rparr>) = (None, s3)"
    using assms(4) by (cases "driver s1") (simp_all add: close_driver_def)
  from i k c show ?thesis by (simp add: indeed_scrape_def slice_to_Nil)
qed

text \<open>
  C4, as amended. For every \<^verbatim>\<open>max_jobs\<close> \<open>n\<close>, a list that either
  orchestrator returns has at most \<open>max n 0\<close> elements. With \<open>n \<le> 0\<close> no page
  is requested and no pause is taken; \<^verbatim>\<open>BaseScraper.scrape\<close> then returns the
  empty list at once, and \<^verbatim>\<open>IndeedScraper.scrape\<close> returns the empty list
  when its browser session starts and closes without a fault.
\<close>

theorem scrape_length_at_most_max_jobs:
  "(\<exists>ys. fst (scrape C K L n s) = Inr ys \<and> int (length ys) \<le> max n 0) \<and>
   (fst (indeed_scrape w K' L' n sc) = Inr xs \<longrightarrow> int (length xs) \<le> max n 0) \<and>
   (n \<le> 0 \<longrightarrow>
      fst (scrape C K L n s) = Inr [] \<and> trace (snd (scrape C K L n s)) = trace s \<and>
      trace (snd (indeed_scrape w K' L' n sc)) = trace sc \<and>
      (chrome_start w = None \<and> execute_script w = None \<and> chrome_quit w = None \<longrightarrow>
         fst (indeed_scrape w K' L' n sc) = Inr []))"
  using scrape_length [of C K L n s] indeed_scrape_length [of w K' L' n sc xs]
    indeed_scrape_capped_trace [of n w K' L' sc] indeed_scrape_capped [of n w K' L' sc]
  by (simp add: scrape_capped)

theorem scrape_length_at_most_max_jobs_witness:
  "fst (indeed_scrape (site_world busy_site) [''a''] [''x''] 1 IndeedScraper) = Inr [listing_engineer] \<and>
   length (jobs_scraped (snd (indeed_scrape (site_world busy_site) [''a''] [''x''] 1 IndeedScraper))) = 2 \<and>
   int (length [listing_engineer]) \<le> max 1 0 \<and>
   (0::int) \<le> 0 \<and>
   fst (scrape echo_site [''a'', ''b''] [''x'', ''y''] 0 new_scraper) = Inr [] \<and>
   trace (snd (scrape echo_site [''a'', ''b''] [''x'', ''y''] 0 new_scraper)) = [] \<and>
   trace (snd (indeed_scrape (site_world busy_site) [''a''] [''x''] 0 IndeedScraper)) = [] \<and>
   chrome_start (site_world busy_site) = None \<and> execute_script (site_world busy_site) = None \<and>
   chrome_quit (site_world busy_site) = None \<and>
   fst (indeed_scrape (site_world busy_site) [''a''] [''x''] 0 IndeedScraper) = Inr []"
  using
    scrape_length_at_most_max_jobs [where C = echo_site and K = "[''a'', ''b'']"
      and L = "[''x'', ''y'']" and n = 1 and s = new_scraper and w = "site_world busy_site"
      and K' = "[''a'']" and L' = "[''x'']" and sc = IndeedScraper and xs = "[listing_engineer]"]
    scrape_length_at_most_max_jobs [where C = echo_site and K = "[''a'', ''b'']"
      and L = "[''x'', ''y'']" and n = 0 and s = new_scraper and w = "site_world busy_site"
      and K' = "[''a'']" and L' = "[''x'']" and sc = IndeedScraper and xs = "[]"]
  by (simp add: busy_run scraper_sel site_world_sel)

text \<open>
  The claim as stated fails for \<^verbatim>\<open>IndeedScraper.scrape\<close>: it starts the
  browser session before the first comparison with \<^verbatim>\<open>max_jobs\<close>, so with
  a cap of zero and a browser that cannot start it raises instead of returning
  the empty list.
\<close>

theorem scrape_zero_cap_counterexample:
  "fst (indeed_scrape broken_chrome [''a''] [''x''] 0 IndeedScraper) =
     Inl (WebDriverException ''unable to obtain driver for chrome'')"
  by (simp add: indeed_scrape_def init_driver_def close_driver_def broken_chrome_def scraper_sel)

section \<open>The order of the search requests\<close>

lemma random_delay_requests:
  "random_delay f s = (r, s') \<Longrightarrow> requests (trace s') = requests (trace s)"
  by (auto simp: random_delay_def requests_append split: option.splits)

lemma scrape_locations_requests:
  assumes "scrape_locations C K L n kw ls s = (None, s')"
    and "int (length (jobs_scraped s')) < n"
  shows "requests (trace s') =
           requests (trace s) @ map (\<lambda>l. projr (build_search_url C kw l)) ls"
  using assms
proof (induction ls arbitrary: s)
  case Nil
  then show ?case by simp
next
  case (Cons l ls)
  from scrape_locations_grows [OF Cons.prems(1)] Cons.prems(2)
  have open_: "\<not> n \<le> int (length (jobs_scraped s))" by simp
  from Cons.prems(1) open_ obtain url where u: "build_search_url C kw l = Inr url"
    by (cases "build_search_url C kw l") auto
  from Cons.prems(1) open_ u obtain jobs where p: "scrape_search_page C (trace s) url = Inr jobs"
    by (cases "scrape_search_page C (trace s) url") auto
  define s1 where "s1 = s\<lparr>jobs_scraped := jobs_scraped s @ jobs, trace := trace s @ [Get url]\<rparr>"
  have t1: "requests (trace s1) = requests (trace s) @ [url]"
    by (simp add: s1_def requests_append)
  from Cons.prems(1) open_ u p obtain due where dd: "delay_due K L kw l = Inr due"
    by (cases "delay_due K L kw l") (auto simp: Let_def)
  show ?case
  proof (cases due)
    case True
    obtain r2 s2 where d: "random_delay (sleep_fault C) s1 = (r2, s2)"
      by (cases "random_delay (sleep_fault C) s1")
    from Cons.prems(1) open_ u p dd True d have r2: "r2 = None"
      by (cases r2) (auto simp: Let_def s1_def)
    from Cons.prems(1) open_ u p dd True d r2
    have rec: "scrape_locations C K L n kw ls s2 = (None, s')"
      by (auto simp: Let_def s1_def)
    from Cons.IH [OF rec Cons.prems(2)] random_delay_requests [OF d] t1 u
    show ?thesis by simp
  next
    case False
    from Cons.prems(1) open_ u p dd False
    have rec: "scrape_locations C K L n kw ls s1 = (None, s')"
      by (auto simp: Let_def s1_def)
    from Cons.IH [OF rec Cons.prems(2)] t1 u show ?thesis by simp
  qed
qed

lemma scrape_keywords_requests:
  assumes "scrape_keywords C K L n ks s = (None, s')"
    and "int (length (jobs_scraped s')) < n"
  shows "requests (trace s') =
           requests (trace s) @ map (\<lambda>(k, l). projr (build_search_url C k l)) (List.product ks L)"
  using assms
proof (induction ks arbitrary: s)
  case Nil
  then show ?case by simp
next
  case (Cons k ks)
  obtain r1 s1 where l: "scrape_locations C K L n k L s = (r1, s1)"
    by (cases "scrape_locations C K L n k L s")
  from Cons.prems(1) l have r1: "r1 = None" by (cases r1) auto
  from Cons.prems(1) l r1
  have rec: "scrape_keywords C K L n ks s1 = (None, s') \<or> s1 = s'"
    by (auto split: if_splits)
  have le: "length (jobs_scraped s1) \<le> length (jobs_scraped s')"
    using rec scrape_keywords_grows [of C K L n ks s1 None s'] by auto
  with Cons.prems(2) have lt: "int (length (jobs_scraped s1)) < n" by simp
  with Cons.prems(1) l r1 have rec': "scrape_keywords C K L n ks s1 = (None, s')" by simp
  from scrape_locations_requests [OF l [unfolded r1] lt] Cons.IH [OF rec' Cons.prems(2)]
  show ?case by (simp add: o_def)
qed

lemma scrape_trace:
  "trace (snd (scrape C K L n s)) = trace (snd (scrape_keywords C K L n K (s\<lparr>jobs_scraped := []\<rparr>)))"
  by (simp add: scrape_def Let_def split: prod.splits option.splits)

lemma scrape_requests:
  assumes "error_log (snd (scrape C K L n s)) = error_log s"
    and "int (length (jobs_scraped (snd (scrape C K L n s)))) < n"
  shows "requests (trace (snd (scrape C K L n s))) =
           requests (trace s) @ map (\<lambda>(k, l). projr (build_search_url C k l)) (List.product K L)"
proof -
  obtain r s' where k: "scrape_keywords C K L n K (s\<lparr>jobs_scraped := []\<rparr>) = (r, s')"
    by (cases "scrape_keywords C K L n K (s\<lparr>jobs_scraped := []\<rparr>)")
  from assms(1) k have r: "r = None"
    by (cases r) (simp_all add: scrape_error_log)
  from assms(2) k have lt: "int (length (jobs_scraped s')) < n"
    by (simp add: scrape_jobs_scraped)
  from scrape_keywords_requests [OF k [unfolded r] lt] k show ?thesis
    by (simp add: scrape_trace)
qed

lemma indeed_scrape_requests:
  assumes "fst (indeed_scrape w K L n sc) = Inr xs"
    and "int (length (jobs_scraped (snd (indeed_scrape w K L n sc)))) < n"
  shows "requests (trace (snd (indeed_scrape w K L n sc))) =
           requests (trace sc) @ map (\<lambda>(k, l). indeed_build_search_url sc k l) (List.product K L)"
proof -
  let ?s1 = "snd (init_driver w sc)\<lparr>jobs_scraped := []\<rparr>"
  note f = indeed_scrape_Inr [OF assms(1)]
  obtain r s' where k: "indeed_keywords w n L K ?s1 = (r, s')"
    by (cases "indeed_keywords w n L K ?s1")
  from f k have r: "r = None" by simp
  from f have d: "driver ?s1" by (simp add: init_driver_ok)
  from f k assms(2) have lt: "int (length (jobs_scraped s')) < n" by simp
  have u: "\<And>k l. indeed_build_search_url ?s1 k l = indeed_build_search_url sc k l"
    using init_driver_snd [of w sc] by (simp add: indeed_build_search_url_def)
  from indeed_keywords_requests [OF k d] r lt u f k init_driver_snd [of w sc]
  show ?thesis by simp
qed

lemma echo_run:
  "scrape echo_site [''a'', ''b''] [''x'', ''y''] 10 new_scraper =
     (Inr [''a/x'', ''a/y'', ''b/x'', ''b/y''],
      new_scraper\<lparr>jobs_scraped := [''a/x'', ''a/y'', ''b/x'', ''b/y''],
        trace := [Get ''a/x'', RandomDelay, Get ''a/y'', RandomDelay, Get ''b/x'',
                  RandomDelay, Get ''b/y'']\<rparr>)"
  by (simp add: scrape_def echo_site_def new_scraper_def random_delay_def slice_to_def
        delay_due_def)

lemma two_jobs_run:
  "indeed_scrape (site_world two_jobs_site) [''a'', ''b''] [''x''] 5 IndeedScraper =
     (Inr [listing_engineer, listing_technician],
      IndeedScraper\<lparr>jobs_scraped := [listing_engineer, listing_technician],
         trace := [Get ''https://uk.indeed.com/jobs?q=a&l=x'', Sleep 2, RandomDelay,
                   Get ''https://uk.indeed.com/jobs?q=b&l=x'', Sleep 2, RandomDelay]\<rparr>)"
  by (simp add: run_defs search_site cards_two_jobs parse_engineer parse_technician)


text \<open>
  C5. When no exception ends the run and it finishes with fewer than
  \<^verbatim>\<open>max_jobs\<close> listings accumulated (the cap is never reached), either
  orchestrator has requested exactly one search page per pair of keyword and
  location, \<open>length K * length L\<close> pages, in the order of \<open>List.product K L\<close>:
  keywords outside, locations inside.
\<close>

theorem search_requests_keyword_major:
  "(error_log (snd (scrape C K L n s)) = error_log s \<and>
    int (length (jobs_scraped (snd (scrape C K L n s)))) < n \<longrightarrow>
      requests (trace (snd (scrape C K L n s))) =
        requests (trace s) @ map (\<lambda>(k, l). projr (build_search_url C k l)) (List.product K L) \<and>
      length (requests (trace (snd (scrape C K L n s)))) =
        length (requests (trace s)) + length K * length L) \<and>
   (fst (indeed_scrape w K L n sc) = Inr xs \<and>
    int (length (jobs_scraped (snd (indeed_scrape w K L n sc)))) < n \<longrightarrow>
      requests (trace (snd (indeed_scrape w K L n sc))) =
        requests (trace sc) @ map (\<lambda>(k, l). indeed_build_search_url sc k l) (List.product K L) \<and>
      length (requests (trace (snd (indeed_scrape w K L n sc)))) =
        length (requests (trace sc)) + length K * length L)"
  using scrape_requests [of C K L n s] indeed_scrape_requests [of w K L n sc xs]
  by (simp add: length_product)

theorem search_requests_keyword_major_witness:
  "error_log (snd (scrape echo_site [''a'', ''b''] [''x'', ''y''] 10 new_scraper)) = error_log new_scraper \<and>
   int (length (jobs_scraped (snd (scrape echo_site [''a'', ''b''] [''x'', ''y''] 10 new_scraper)))) < 10 \<and>
   requests (trace (snd (scrape echo_site [''a'', ''b''] [''x'', ''y''] 10 new_scraper))) =
     [''a/x'', ''a/y'', ''b/x'', ''b/y''] \<and>
   fst (indeed_scrape (site_world two_jobs_site) [''a'', ''b''] [''x''] 5 IndeedScraper) =
     Inr [listing_engineer, listing_technician] \<and>
   int (length (jobs_scraped (snd (indeed_scrape (site_world two_jobs_site) [''a'', ''b''] [''x''] 5
     IndeedScraper)))) < 5 \<and>
   requests (trace (snd (indeed_scrape (site_world two_jobs_site) [''a'', ''b''] [''x''] 5 IndeedScraper))) =
     [''https://uk.indeed.com/jobs?q=a&l=x'', ''https://uk.indeed.com/jobs?q=b&l=x'']"
  using search_requests_keyword_major [where C = echo_site and K = "[''a'', ''b'']"
      and L = "[''x'', ''y'']" and n = 10 and s = new_scraper and w = "site_world two_jobs_site"
      and sc = IndeedScraper and xs = "[]"]
    search_requests_keyword_major [where C = echo_site and K = "[''a'', ''b'']"
      and L = "[''x'']" and n = 5 and s = new_scraper and w = "site_world two_jobs_site"
      and sc = IndeedScraper and xs = "[listing_engineer, listing_technician]"]
  by (simp add: echo_run two_jobs_run scraper_sel)

section \<open>The pause after the last request\<close>

text \<open>
  C7. \<^verbatim>\<open>IndeedScraper.scrape\<close> pauses after every request, the last one
  of the last pair included: a run over one keyword and one location ends with
  \<open>RandomDelay\<close>. \<^verbatim>\<open>BaseScraper.scrape\<close> compares the keyword and the
  location with the last elements by value: with a keyword listed twice, no
  pause separates the two requests.
\<close>

theorem delay_after_last_request:
  "trace (snd (indeed_scrape (site_world two_jobs_site) [''a''] [''x''] 5 IndeedScraper)) =
     [Get ''https://uk.indeed.com/jobs?q=a&l=x'', Sleep 2, RandomDelay] \<and>
   trace (snd (scrape echo_site [''a'', ''a''] [''x''] 10 new_scraper)) =
     [Get ''a/x'', Get ''a/x'']"
  by (simp add: run_defs search_site cards_two_jobs parse_engineer scraper_sel
        scrape_def echo_site_def new_scraper_def delay_due_def)

section \<open>The persistence loop\<close>

lemma save_handler_db: "fst (save_handler e (db, a, d)) = db"
  by (cases e) (simp_all add: save_handler_def)

lemma save_handler_counts:
  "save_handler e (db, a, d) = (db, a, d) \<or> save_handler e (db, a, d) = (db, a, Suc d)"
  by (cases e) (simp_all add: save_handler_def)

lemma find_by_url_None: "find_by_url db u = None \<longleftrightarrow> u \<notin> set (stored_urls db)"
  by (auto simp: find_by_url_def stored_urls_def find_None_iff)

lemma insert_job_fresh:
  "u \<notin> set (stored_urls db) \<Longrightarrow> job_board_url x = u \<Longrightarrow>
     insert_job db x = Inr (db\<lparr>jobs_table := jobs_table db @ [Job (length (jobs_table db)) x]\<rparr>)"
  by (simp add: insert_job_def stored_urls_def)

lemma Job_url [simp]: "job_board_url (Job k x) = job_board_url x"
  by (simp add: Job_def)

text \<open>What one turn of the loop can do to storage.\<close>

lemma save_job_cases:
  obtains (same) a' d' where "save_job F i x (db, a, d) = (db, a', d')"
      "a' = a" "d' = d \<or> d' = Suc d"
    | (new) row where "save_job F i x (db, a, d) = (db\<lparr>jobs_table := jobs_table db @ [row]\<rparr>, Suc a, d)"
      "job_board_url row = job_board_url x" "job_board_url x \<notin> set (stored_urls db)"
      "job_query F i = None" "job_commit F i = None"
proof (cases "job_query F i")
  case (Some e)
  with save_handler_counts [of e db a d] same show ?thesis
    by (auto simp: save_job_def)
next
  case None
  note q = this
  show ?thesis
  proof (cases "find_by_url db (job_board_url x)")
    case (Some j)
    with q same show ?thesis by (simp add: save_job_def)
  next
    case None
    then have fresh: "job_board_url x \<notin> set (stored_urls db)" by (simp add: find_by_url_None)
    show ?thesis
    proof (cases "job_commit F i")
      case (Some e)
      with q None save_handler_counts [of e db a d] same show ?thesis
        by (auto simp: save_job_def)
    next
      case c: None
      from insert_job_fresh [OF fresh refl]
      have "insert_job db x = Inr (db\<lparr>jobs_table := jobs_table db @ [Job (length (jobs_table db)) x]\<rparr>)" .
      with q None c fresh new [of "Job (length (jobs_table db)) x"] show ?thesis
        by (simp add: save_job_def)
    qed
  qed
qed

lemma save_job_distinct:
  assumes "distinct (stored_urls db)" and "save_job F i x (db, a, d) = (db', a', d')"
  shows "distinct (stored_urls db') \<and> scraper_logs db' = scraper_logs db \<and>
         a' + d' \<le> Suc (a + d) \<and> a \<le> a' \<and> d \<le> d'"
  using assms by (cases rule: save_job_cases [of F i x db a d]) (auto simp: stored_urls_def)

lemma save_jobs_distinct:
  assumes "distinct (stored_urls db)" and "save_jobs F i xs (db, a, d) = (db', a', d')"
  shows "distinct (stored_urls db') \<and> scraper_logs db' = scraper_logs db \<and>
         a' + d' \<le> a + d + length xs"
  using assms
proof (induction xs arbitrary: i db a d)
  case Nil
  then show ?case by simp
next
  case (Cons x xs)
  obtain db1 a1 d1 where s: "save_job F i x (db, a, d) = (db1, a1, d1)"
    by (cases "save_job F i x (db, a, d)")
  from save_job_distinct [OF Cons.prems(1) s] Cons.prems(2) s Cons.IH [of db1 "Suc i" a1 d1]
  show ?case by auto
qed

lemma save_job_logs:
  "save_job F i x (db, a, d) = (db', a', d') \<Longrightarrow> scraper_logs db' = scraper_logs db \<and> now db' = now db"
  by (cases rule: save_job_cases [of F i x db a d]) auto

lemma save_jobs_logs:
  "save_jobs F i xs (db, a, d) = (db', a', d') \<Longrightarrow> scraper_logs db' = scraper_logs db"
proof (induction xs arbitrary: i db a d)
  case Nil
  then show ?case by simp
next
  case (Cons x xs)
  obtain db1 a1 d1 where s: "save_job F i x (db, a, d) = (db1, a1, d1)"
    by (cases "save_job F i x (db, a, d)")
  from save_job_logs [OF s] Cons.prems s Cons.IH [of "Suc i" db1 a1 d1]
  show ?case by auto
qed




lemma distinct_filter_one:
  "distinct xs \<Longrightarrow> u \<in> set xs \<Longrightarrow> length (filter (\<lambda>v. v = u) xs) = 1"
  by (induction xs) (auto simp: filter_empty_conv)

lemma rows_for_one:
  assumes "distinct (stored_urls db)" and "u \<in> set (stored_urls db)"
  shows "length (rows_for db u) = 1"
proof -
  have "length (rows_for db u) = length (filter (\<lambda>v. v = u) (stored_urls db))"
    by (simp add: rows_for_def stored_urls_def filter_map o_def)
  with distinct_filter_one [OF assms] show ?thesis by simp
qed

lemma rows_for_at_most_one:
  assumes "distinct (stored_urls db)"
  shows "length (rows_for db u) \<le> 1"
proof (cases "u \<in> set (stored_urls db)")
  case True
  with rows_for_one [OF assms] show ?thesis by simp
next
  case False
  then have "rows_for db u = []" by (auto simp: rows_for_def stored_urls_def filter_empty_conv)
  then show ?thesis by simp
qed




lemma logs_update_last: "(logs @ [row])[length logs := v] = logs @ [v]"
  by simp

text \<open>The body of the outer try, case by case.\<close>

lemma body_cases:
  fixes db0 :: database
  defines "scr \<equiv> \<lambda>w K L n sc. fst (indeed_scrape w K L n sc)"
  obtains
    (scrape_fault) e where "scr w K L n sc = Inl e"
      "scrape_and_save_body w F sc db0 k K L n = (Inl e, db0)"
  | (commit_fault) xs db1 a d e where "scr w K L n sc = Inr xs"
      "save_jobs F 0 xs (db0, 0, 0) = (db1, a, d)" "log_complete F = Some e"
      "scrape_and_save_body w F sc db0 k K L n = (Inl e, db1)"
  | (completed) xs db1 a d where "scr w K L n sc = Inr xs"
      "save_jobs F 0 xs (db0, 0, 0) = (db1, a, d)" "log_complete F = None"
      "scrape_and_save_body w F sc db0 k K L n =
         (Inr \<lparr> jobs_found = length xs, jobs_added = a, jobs_duplicate = d,
                status = ''success'', error = None \<rparr>,
          db1\<lparr>scraper_logs := (scraper_logs db1)
             [k := (scraper_logs db1 ! k)
                \<lparr>log_jobs_found := length xs, log_jobs_added := a, log_status := ''completed''\<rparr>]\<rparr>)"
proof (cases "fst (indeed_scrape w K L n sc)")
  case (Inl e)
  with scrape_fault show ?thesis by (simp add: scr_def scrape_and_save_body_def)
next
  case (Inr xs)
  obtain db1 a d where s: "save_jobs F 0 xs (db0, 0, 0) = (db1, a, d)"
    by (cases "save_jobs F 0 xs (db0, 0, 0)")
  show ?thesis
  proof (cases "log_complete F")
    case None
    with Inr s completed show ?thesis by (simp add: scr_def scrape_and_save_body_def)
  next
    case (Some e)
    with Inr s commit_fault show ?thesis by (simp add: scr_def scrape_and_save_body_def)
  qed
qed

lemma stored_urls_logs [simp]: "stored_urls (db\<lparr>scraper_logs := l\<rparr>) = stored_urls db"
  by (simp add: stored_urls_def)

lemma rows_for_logs [simp]: "rows_for (db\<lparr>scraper_logs := l\<rparr>) u = rows_for db u"
  by (simp add: rows_for_def)







section \<open>Concrete runs of the service\<close>

lemma one_job_run:
  "indeed_scrape (site_world two_jobs_site) [''a''] [''x''] 5 IndeedScraper =
     (Inr [listing_engineer],
      IndeedScraper\<lparr>jobs_scraped := [listing_engineer],
         trace := [Get ''https://uk.indeed.com/jobs?q=a&l=x'', Sleep 2, RandomDelay]\<rparr>)"
  by (simp add: run_defs search_site cards_two_jobs parse_engineer parse_technician)

lemma three_jobs_run:
  "indeed_scrape (site_world two_jobs_site) [''a'', ''b'', ''c''] [''x''] 5 IndeedScraper =
     (Inr [listing_engineer, listing_technician, listing_technician],
      IndeedScraper\<lparr>jobs_scraped := [listing_engineer, listing_technician, listing_technician],
         trace := [Get ''https://uk.indeed.com/jobs?q=a&l=x'', Sleep 2, RandomDelay,
                   Get ''https://uk.indeed.com/jobs?q=b&l=x'', Sleep 2, RandomDelay,
                   Get ''https://uk.indeed.com/jobs?q=c&l=x'', Sleep 2, RandomDelay]\<rparr>)"
  by (simp add: run_defs search_site cards_two_jobs parse_engineer parse_technician)

lemma listing_urls [simp]:
  "job_board_url listing_engineer = ''https://uk.indeed.com/rc/clk?jk=1''"
  "job_board_url listing_technician = ''''"
  by (simp_all add: listing_engineer_def listing_technician_def)

lemmas service_defs = scrape_and_save_indeed_def scrape_and_save_body_def or_default_def
  outer_handler_def save_job_def save_handler_def find_by_url_def insert_job_def Let_def

lemma first_run:
  "scrape_and_save_indeed (site_world two_jobs_site) no_faults default_settings IndeedScraper
     empty_db (Some [''a'']) (Some [''x'']) (Some 5) =
   (Inr \<lparr> jobs_found = 1, jobs_added = 1, jobs_duplicate = 0, status = ''success'', error = None \<rparr>,
    stored_engineer)"
  by (simp add: service_defs one_job_run no_faults_def empty_db_def stored_engineer_def)

lemma second_run:
  "scrape_and_save_indeed (site_world two_jobs_site) no_faults default_settings IndeedScraper
     stored_engineer (Some [''a'', ''b'', ''c'']) (Some [''x'']) (Some 5) =
   (Inr \<lparr> jobs_found = 3, jobs_added = 1, jobs_duplicate = 2, status = ''success'', error = None \<rparr>,
    stored_engineer\<lparr>jobs_table := [Job 0 listing_engineer, Job 1 listing_technician],
      scraper_logs := scraper_logs stored_engineer @
        [(ScraperLog 0 [''a'', ''b'', ''c''] [''x''])
           \<lparr>log_jobs_found := 3, log_jobs_added := 1, log_status := ''completed''\<rparr>]\<rparr>)"
  by (simp add: service_defs three_jobs_run no_faults_def stored_engineer_def)



lemma refused_run:
  "scrape_and_save_indeed (site_world two_jobs_site) commit_refused default_settings IndeedScraper
     empty_db (Some [''a'']) (Some [''x'']) (Some 5) =
   (Inr \<lparr> jobs_found = 1, jobs_added = 0, jobs_duplicate = 0, status = ''success'', error = None \<rparr>,
    empty_db\<lparr>scraper_logs :=
        [(ScraperLog 0 [''a''] [''x''])
           \<lparr>log_jobs_found := 1, log_jobs_added := 0, log_status := ''completed''\<rparr>]\<rparr>)"
  by (simp add: service_defs one_job_run commit_refused_def empty_db_def)







section \<open>Re-ingestion\<close>





section \<open>Parsing one card\<close>

lemma attr_get_absent: "\<not> has_attr x k \<Longrightarrow> attr_get x k d = d"
  by (cases x) auto

lemma startswith_slash_Nil: "\<not> startswith_slash ''''"
  by (simp add: startswith_slash_def)


lemma parse_Some:
  assumes "title_elem_of e = Some t"
  shows "\<exists>r. parse_job_listing base e = Some r \<and>
     job_title r = get_text_strip (title_link_of t) \<and>
     job_board_url r =
       (if startswith_slash (attr_get (title_link_of t) ''href'' '''')
        then base @ attr_get (title_link_of t) ''href'' ''''
        else attr_get (title_link_of t) ''href'' '''') \<and>
     company r =
       (case find_or e ''span'' (HasClass ''companyName'') ''span'' (HasAttr ''data-testid'' ''company-name'') of
          Some c \<Rightarrow> get_text_strip c | None \<Rightarrow> ''Unknown Company'') \<and>
     location r =
       (case find_or e ''div'' (HasClass ''companyLocation'') ''div'' (HasAttr ''data-testid'' ''text-location'') of
          Some l \<Rightarrow> get_text_strip l | None \<Rightarrow> ''Location not specified'') \<and>
     salary_range r =
       (case find_or e ''div'' (HasClass ''salary-snippet'') ''div'' (HasAttr ''data-testid'' ''attribute_snippet_testid'') of
          Some s \<Rightarrow> Some (get_text_strip s) | None \<Rightarrow> None) \<and>
     description r =
       (case find_or e ''div'' (HasClass ''job-snippet'') ''div'' (HasClass ''underShelfFooter'') of
          Some d \<Rightarrow> get_text_strip d | None \<Rightarrow> '''') \<and>
     job_board_source r = ''indeed'' \<and> requirements r = None"
  using assms by (simp add: parse_job_listing_def Let_def)

lemma title_technician:
  "title_elem_of card_technician =
     Some (Tag ''h2'' [''jobTitle''] [] [Tag ''a'' [] [] [NavigableString ''Technician'']])"
  by (simp add: title_elem_of_def find_or_def find_first_def find_all_def card_technician_def)

lemma link_technician:
  "title_link_of (Tag ''h2'' [''jobTitle''] [] [Tag ''a'' [] [] [NavigableString ''Technician'']]) =
     Tag ''a'' [] [] [NavigableString ''Technician'']"
  by (simp add: title_link_of_def find_first_def find_all_def)



lemma outer_handler_jobs: "jobs_table (snd (outer_handler F k e db)) = jobs_table db"
  by (simp add: outer_handler_def split: option.splits)

lemma service_keeps_unique:
  assumes "distinct (stored_urls db)"
  shows "distinct (stored_urls (snd (scrape_and_save_indeed w F cfg sc db K L n)))"
proof (cases "log_insert F")
  case (Some e)
  with assms show ?thesis by (simp add: scrape_and_save_indeed_def Let_def)
next
  case None
  let ?K = "or_default K (scraping_keywords_list cfg)"
  let ?L = "or_default L (scraping_locations_list cfg)"
  let ?n = "or_default n (MAX_JOBS_PER_SCRAPE cfg)"
  let ?db0 = "db\<lparr>scraper_logs := scraper_logs db @ [ScraperLog (now db) ?K ?L]\<rparr>"
  have u0: "distinct (stored_urls ?db0)" using assms by simp
  have key: "stored_urls (snd (outer_handler F k e d)) = stored_urls d" for k e d
    using outer_handler_jobs [of F k e d] by (simp add: stored_urls_def)
  show ?thesis
  proof (cases rule: body_cases [of w ?K ?L ?n sc F ?db0 "length (scraper_logs db)"])
    case (scrape_fault e)
    with None assms key show ?thesis
      by (simp add: scrape_and_save_indeed_def Let_def)
  next
    case (commit_fault xs db1 a d e)
    from save_jobs_distinct [OF u0 commit_fault(2)] have "distinct (stored_urls db1)" by simp
    with None commit_fault key show ?thesis
      by (simp add: scrape_and_save_indeed_def Let_def)
  next
    case (completed xs db1 a d)
    from save_jobs_distinct [OF u0 completed(2)] have "distinct (stored_urls db1)" by simp
    with None completed show ?thesis
      by (simp add: scrape_and_save_indeed_def Let_def)
  qed
qed







section \<open>Listings without a link\<close>

text \<open>
  C10. A card with a title element whose link has no \<^verbatim>\<open>href\<close> parses to a
  record whose \<^verbatim>\<open>job_board_url\<close> is the empty string. Whatever a run of
  the service does, storage with unique URLs keeps unique URLs, so it never
  holds more than one row for the empty string.
\<close>

theorem missing_href_collides:
  "(title_elem_of e = Some t \<and> \<not> has_attr (title_link_of t) ''href'' \<longrightarrow>
      (\<exists>r. parse_job_listing base e = Some r \<and> job_board_url r = '''')) \<and>
   (distinct (stored_urls db) \<longrightarrow>
      distinct (stored_urls (snd (scrape_and_save_indeed w F cfg sc db K L n))) \<and>
      length (rows_for (snd (scrape_and_save_indeed w F cfg sc db K L n)) '''') \<le> 1)"
proof -
  have a: "\<exists>r. parse_job_listing base e = Some r \<and> job_board_url r = ''''"
    if "title_elem_of e = Some t" and "\<not> has_attr (title_link_of t) ''href''"
    using parse_Some [OF that(1), of base] attr_get_absent [OF that(2), of "''''"]
    by (auto simp: startswith_slash_Nil)
  have b: "distinct (stored_urls (snd (scrape_and_save_indeed w F cfg sc db K L n))) \<and>
      length (rows_for (snd (scrape_and_save_indeed w F cfg sc db K L n)) '''') \<le> 1"
    if "distinct (stored_urls db)"
    using service_keeps_unique [OF that] rows_for_at_most_one by blast
  from a b show ?thesis by blast
qed

theorem missing_href_collides_witness:
  "title_elem_of card_technician =
     Some (Tag ''h2'' [''jobTitle''] [] [Tag ''a'' [] [] [NavigableString ''Technician'']]) \<and>
   \<not> has_attr (title_link_of (Tag ''h2'' [''jobTitle''] []
        [Tag ''a'' [] [] [NavigableString ''Technician'']])) ''href'' \<and>
   parse_job_listing ''https://uk.indeed.com'' card_technician = Some listing_technician \<and>
   job_board_url listing_technician = '''' \<and>
   distinct (stored_urls stored_engineer) \<and>
   fst (indeed_scrape (site_world two_jobs_site) [''a'', ''b'', ''c''] [''x''] 5 IndeedScraper) =
     Inr [listing_engineer, listing_technician, listing_technician] \<and>
   rows_for (snd (scrape_and_save_indeed (site_world two_jobs_site) no_faults default_settings
       IndeedScraper stored_engineer (Some [''a'', ''b'', ''c'']) (Some [''x'']) (Some 5))) '''' =
     [Job 1 listing_technician]"
proof -
  have h: "\<not> has_attr (title_link_of (Tag ''h2'' [''jobTitle''] []
        [Tag ''a'' [] [] [NavigableString ''Technician'']])) ''href''"
    by (simp add: link_technician)
  have d: "distinct (stored_urls stored_engineer)"
    by (simp add: stored_urls_def stored_engineer_def)
  note T = missing_href_collides [of card_technician
      "Tag ''h2'' [''jobTitle''] [] [Tag ''a'' [] [] [NavigableString ''Technician'']]"
      "''https://uk.indeed.com''" stored_engineer "site_world two_jobs_site" no_faults
      default_settings IndeedScraper "Some [''a'', ''b'', ''c'']" "Some [''x'']" "Some 5"]
  have r: "rows_for (snd (scrape_and_save_indeed (site_world two_jobs_site) no_faults default_settings
       IndeedScraper stored_engineer (Some [''a'', ''b'', ''c'']) (Some [''x'']) (Some 5))) '''' =
     [Job 1 listing_technician]"
    by (simp add: second_run rows_for_def)
  have s: "fst (indeed_scrape (site_world two_jobs_site) [''a'', ''b'', ''c''] [''x''] 5 IndeedScraper) =
     Inr [listing_engineer, listing_technician, listing_technician]"
    by (simp add: three_jobs_run)
  have u: "job_board_url listing_technician = ''''" by simp
  from T title_technician h parse_technician u d s r show ?thesis by blast
qed

section \<open>The outcomes of an invocation\<close>

lemma save_job_counts:
  "save_job F i x (db, a, d) = (db', a', d') \<Longrightarrow> a' + d' \<le> Suc (a + d)"
  by (cases rule: save_job_cases [of F i x db a d]) auto

lemma save_jobs_counts:
  "save_jobs F i xs (db, a, d) = (db', a', d') \<Longrightarrow> a' + d' \<le> a + d + length xs"
proof (induction xs arbitrary: i db a d)
  case Nil
  then show ?case by simp
next
  case (Cons x xs)
  obtain db1 a1 d1 where s: "save_job F i x (db, a, d) = (db1, a1, d1)"
    by (cases "save_job F i x (db, a, d)")
  from save_job_counts [OF s] Cons.prems s Cons.IH [of "Suc i" db1 a1 d1]
  show ?case by auto
qed

lemma outer_handler_cases:
  obtains (raised) e' where "log_failed F = Some e'" "outer_handler F k e d = (Inl e', d)"
  | (failed) "log_failed F = None"
      "outer_handler F k e d =
         (Inr \<lparr> jobs_found = 0, jobs_added = 0, jobs_duplicate = 0,
                status = ''error'', error = Some (str_exc e) \<rparr>,
          d\<lparr>scraper_logs := (scraper_logs d)
             [k := (scraper_logs d ! k)
                \<lparr>log_status := ''failed'', error_message := Some (str_exc e)\<rparr>]\<rparr>)"
  by (cases "log_failed F") (simp_all add: outer_handler_def)

text \<open>Every way an invocation of the service can end.\<close>

lemma service_outcome:
  fixes db :: database and K L :: "string list option" and n :: "int option"
    and cfg :: settings and w :: world and F :: storage_faults and sc :: indeed_scraper
  defines "row \<equiv> ScraperLog (now db) (or_default K (scraping_keywords_list cfg))
                    (or_default L (scraping_locations_list cfg))"
  defines "scraped \<equiv> fst (indeed_scrape w (or_default K (scraping_keywords_list cfg))
                    (or_default L (scraping_locations_list cfg))
                    (or_default n (MAX_JOBS_PER_SCRAPE cfg)) sc)"
  defines "run \<equiv> scrape_and_save_indeed w F cfg sc db K L n"
  obtains
    (raised_before) e where "log_insert F = Some e" "run = (Inl e, db)"
  | (completed) xs db1 a d where "log_insert F = None" "scraped = Inr xs"
      "log_complete F = None" "a + d \<le> length xs"
      "run = (Inr \<lparr> jobs_found = length xs, jobs_added = a, jobs_duplicate = d,
                     status = ''success'', error = None \<rparr>,
              db1\<lparr>scraper_logs := scraper_logs db @
                 [row\<lparr>log_jobs_found := length xs, log_jobs_added := a,
                      log_status := ''completed''\<rparr>]\<rparr>)"
  | (failed) e db1 where "log_insert F = None" "log_failed F = None"
      "scraped = Inl e \<or> log_complete F = Some e"
      "run = (Inr \<lparr> jobs_found = 0, jobs_added = 0, jobs_duplicate = 0,
                     status = ''error'', error = Some (str_exc e) \<rparr>,
              db1\<lparr>scraper_logs := scraper_logs db @
                 [row\<lparr>log_status := ''failed'', error_message := Some (str_exc e)\<rparr>]\<rparr>)"
  | (raised_in_handler) e' db1 where "log_insert F = None" "log_failed F = Some e'"
      "run = (Inl e', db1)"
proof (cases "log_insert F")
  case (Some e)
  with raised_before show ?thesis by (simp add: run_def scrape_and_save_indeed_def Let_def)
next
  case None
  let ?K = "or_default K (scraping_keywords_list cfg)"
  let ?L = "or_default L (scraping_locations_list cfg)"
  let ?n = "or_default n (MAX_JOBS_PER_SCRAPE cfg)"
  let ?k = "length (scraper_logs db)"
  let ?db0 = "db\<lparr>scraper_logs := scraper_logs db @ [row]\<rparr>"
  have unfold: "run = (case scrape_and_save_body w F sc ?db0 ?k ?K ?L ?n of
                   (Inr result, db1) \<Rightarrow> (Inr result, db1)
                 | (Inl e, db1) \<Rightarrow> outer_handler F ?k e db1)"
    using None by (simp add: run_def row_def scrape_and_save_indeed_def Let_def)
  have upd: "(scraper_logs db @ [row])[?k := v] = scraper_logs db @ [v]" for v by simp
  have nth: "(scraper_logs db @ [row]) ! ?k = row" by simp
  show ?thesis
  proof (cases rule: body_cases [of w ?K ?L ?n sc F ?db0 ?k])
    case (scrape_fault e)
    show ?thesis
    proof (cases rule: outer_handler_cases [of F ?k e ?db0])
      case (raised e')
      with unfold scrape_fault None raised_in_handler show ?thesis by simp
    next
      case failed' : failed
      from unfold scrape_fault failed' have "run =
        (Inr \<lparr> jobs_found = 0, jobs_added = 0, jobs_duplicate = 0,
                status = ''error'', error = Some (str_exc e) \<rparr>,
         ?db0\<lparr>scraper_logs := scraper_logs db @
             [row\<lparr>log_status := ''failed'', error_message := Some (str_exc e)\<rparr>]\<rparr>)"
        by (simp add: upd)
      with None failed' scrape_fault failed [of e ?db0] show ?thesis by (simp add: scraped_def)
    qed
  next
    case (commit_fault xs db1 a d e)
    from save_jobs_logs [OF commit_fault(2)]
    have l: "scraper_logs db1 = scraper_logs db @ [row]" by simp
    show ?thesis
    proof (cases rule: outer_handler_cases [of F ?k e db1])
      case (raised e')
      with unfold commit_fault None raised_in_handler show ?thesis by simp
    next
      case failed' : failed
      from unfold commit_fault failed' l have "run =
        (Inr \<lparr> jobs_found = 0, jobs_added = 0, jobs_duplicate = 0,
                status = ''error'', error = Some (str_exc e) \<rparr>,
         db1\<lparr>scraper_logs := scraper_logs db @
             [row\<lparr>log_status := ''failed'', error_message := Some (str_exc e)\<rparr>]\<rparr>)"
        by (simp add: upd)
      with None failed' commit_fault failed [of e db1] show ?thesis by simp
    qed
  next
    case c: (completed xs db1 a d)
    from save_jobs_logs [OF c(2)]
    have l: "scraper_logs db1 = scraper_logs db @ [row]" by simp
    have le: "a + d \<le> length xs"
      using save_jobs_counts [OF c(2)] by simp
    from unfold c l have "run =
       (Inr \<lparr> jobs_found = length xs, jobs_added = a, jobs_duplicate = d,
               status = ''success'', error = None \<rparr>,
        db1\<lparr>scraper_logs := scraper_logs db @
           [row\<lparr>log_jobs_found := length xs, log_jobs_added := a,
                log_status := ''completed''\<rparr>]\<rparr>)"
      by (simp add: upd)
    with None c le completed [of xs a d db1] show ?thesis by (simp add: scraped_def)
  qed
qed

lemma ScraperLog_sel:
  "scrape_ended_at (ScraperLog c K L) = None" "log_status (ScraperLog c K L) = ''running''"
  "error_message (ScraperLog c K L) = None"
  by (simp_all add: ScraperLog_def)


lemma page_fault_empty:
  assumes "driver_get w (trace s) url \<noteq> None \<or> wait_until w (trace s) url \<noteq> None"
  shows "fst (indeed_scrape_search_page w url s) = [] \<and>
         length (error_log (snd (indeed_scrape_search_page w url s))) = Suc (length (error_log s))"
proof -
  obtain r s1 where i: "init_driver w s = (r, s1)" by (cases "init_driver w s")
  with init_driver_snd [of w s] have t: "trace s1 = trace s" "error_log s1 = error_log s" by simp_all
  show ?thesis
  proof (cases r)
    case (Some e)
    with i t show ?thesis by (simp add: indeed_scrape_search_page_def load_cards_def)
  next
    case None
    with i t assms show ?thesis
      by (auto simp: indeed_scrape_search_page_def load_cards_def Let_def split: option.splits)
  qed
qed

lemma indeed_locations_no_fault:
  assumes "\<And>h. delay_fault w h = None"
  shows "fst (indeed_locations w n kw ls s) = None"
proof (induction ls arbitrary: s)
  case Nil
  then show ?case by simp
next
  case (Cons l ls)
  then show ?case
    by (simp add: random_delay_def assms split: prod.splits)
qed

lemma indeed_keywords_no_fault:
  assumes "\<And>h. delay_fault w h = None"
  shows "fst (indeed_keywords w n L ks s) = None"
proof (induction ks arbitrary: s)
  case Nil
  then show ?case by simp
next
  case (Cons k ks)
  obtain r s1 where l: "indeed_locations w n k L s = (r, s1)" by (cases "indeed_locations w n k L s")
  with indeed_locations_no_fault [OF assms, of n k L s] have "r = None" by simp
  with l Cons.IH [of s1] show ?case by simp
qed

lemma indeed_scrape_returns:
  assumes "chrome_start w = None" and "execute_script w = None" and "chrome_quit w = None"
    and "\<And>h. delay_fault w h = None"
  shows "\<exists>xs. fst (indeed_scrape w K L n sc) = Inr xs"
proof -
  obtain r1 s1 where i: "init_driver w sc = (r1, s1)" by (cases "init_driver w sc")
  with assms(1,2) have r1: "r1 = None" by (auto simp: init_driver_def split: if_splits)
  obtain r2 s2 where k: "indeed_keywords w n L K (s1\<lparr>jobs_scraped := []\<rparr>) = (r2, s2)"
    by (cases "indeed_keywords w n L K (s1\<lparr>jobs_scraped := []\<rparr>)")
  with indeed_keywords_no_fault [OF assms(4), of n L K "s1\<lparr>jobs_scraped := []\<rparr>"]
  have r2: "r2 = None" by simp
  obtain s3 where c: "close_driver w s2 = (None, s3)"
    using assms(3) by (cases "driver s2") (simp_all add: close_driver_def)
  from i r1 k r2 c show ?thesis
    by (simp add: indeed_scrape_def)
qed

lemma service_completes:
  assumes "chrome_start w = None" and "execute_script w = None" and "chrome_quit w = None"
    and "\<And>h. delay_fault w h = None" and "log_insert F = None" and "log_complete F = None"
  shows "\<exists>r db'. scrape_and_save_indeed w F cfg sc db K L n = (Inr r, db') \<and>
           status r = ''success'' \<and>
           log_status (scraper_logs db' ! length (scraper_logs db)) = ''completed''"
proof -
  from indeed_scrape_returns [OF assms(1-4)] obtain xs where
    x: "fst (indeed_scrape w (or_default K (scraping_keywords_list cfg))
              (or_default L (scraping_locations_list cfg))
              (or_default n (MAX_JOBS_PER_SCRAPE cfg)) sc) = Inr xs" by blast
  show ?thesis
  proof (cases rule: service_outcome [where F = F and w = w and K = K and L = L and cfg = cfg
        and n = n and sc = sc and db = db])
    case (raised_before e)
    with assms(5) show ?thesis by simp
  next
    case (completed xs db1 a d)
    then show ?thesis by simp
  next
    case (failed e db1)
    with x assms(6) show ?thesis by simp
  next
    case (raised_in_handler e' db1)
    show ?thesis
    proof (cases rule: body_cases [of w "or_default K (scraping_keywords_list cfg)"
          "or_default L (scraping_locations_list cfg)" "or_default n (MAX_JOBS_PER_SCRAPE cfg)" sc F
          "db\<lparr>scraper_logs := scraper_logs db @
              [ScraperLog (now db) (or_default K (scraping_keywords_list cfg))
                 (or_default L (scraping_locations_list cfg))]\<rparr>" "length (scraper_logs db)"])
      case (scrape_fault e)
      with x show ?thesis by simp
    next
      case (commit_fault xs db1 a d e)
      with assms(6) show ?thesis by simp
    next
      case c: (completed xs db1 a d)
      with assms(5) raised_in_handler show ?thesis
        by (simp add: scrape_and_save_indeed_def Let_def)
    qed
  qed
qed

lemma broken_run:
  "indeed_scrape broken_chrome [''a''] [''x''] 5 IndeedScraper =
     (Inl (WebDriverException ''unable to obtain driver for chrome''), IndeedScraper)"
  by (simp add: indeed_scrape_def init_driver_def close_driver_def broken_chrome_def scraper_sel)

lemma timeout_run:
  "indeed_scrape timeout_world [''a''] [''x''] 5 IndeedScraper =
     (Inr [],
      IndeedScraper\<lparr>trace := [Get ''https://uk.indeed.com/jobs?q=a&l=x'', RandomDelay],
         error_log := [TimeoutException ''Message: '']\<rparr>)"
  by (simp add: indeed_scrape_def init_driver_def close_driver_def random_delay_def slice_to_def
        indeed_build_search_url_def quote_plus_def always_safe_def IndeedScraper_def
        indeed_scrape_search_page_def load_cards_def timeout_world_def)

lemma broken_service_run:
  "scrape_and_save_indeed broken_chrome no_faults default_settings IndeedScraper
     empty_db (Some [''a'']) (Some [''x'']) (Some 5) =
   (Inr \<lparr> jobs_found = 0, jobs_added = 0, jobs_duplicate = 0, status = ''error'',
          error = Some ''unable to obtain driver for chrome'' \<rparr>,
    empty_db\<lparr>scraper_logs :=
        [(ScraperLog 0 [''a''] [''x''])
           \<lparr>log_status := ''failed'',
            error_message := Some ''unable to obtain driver for chrome''\<rparr>]\<rparr>)"
  by (simp add: service_defs broken_run no_faults_def empty_db_def)

lemma timeout_service_run:
  "scrape_and_save_indeed timeout_world no_faults default_settings IndeedScraper
     empty_db (Some [''a'']) (Some [''x'']) (Some 5) =
   (Inr \<lparr> jobs_found = 0, jobs_added = 0, jobs_duplicate = 0, status = ''success'',
          error = None \<rparr>,
    empty_db\<lparr>scraper_logs :=
        [(ScraperLog 0 [''a''] [''x''])
           \<lparr>log_jobs_found := 0, log_jobs_added := 0, log_status := ''completed''\<rparr>]\<rparr>)"
  by (simp add: service_defs timeout_run no_faults_def empty_db_def)


section \<open>The log row of a run\<close>

text \<open>
  C2, as amended. An invocation that returns normally has appended one row to
  \<^verbatim>\<open>scraper_logs\<close> and left the older rows alone. That row is finalized
  once: its status is \<open>completed\<close>, with the counts of the summary, when the
  summary says success, and \<open>failed\<close>, with the error text, when it says
  error; it is never \<open>running\<close>. Its end time stamp stays unset.
\<close>

theorem log_row_finalized:
  assumes "scrape_and_save_indeed w F cfg sc db K L n = (Inr r, db')"
  shows "length (scraper_logs db') = Suc (length (scraper_logs db)) \<and>
         take (length (scraper_logs db)) (scraper_logs db') = scraper_logs db \<and>
         scrape_ended_at (scraper_logs db' ! length (scraper_logs db)) = None \<and>
         log_status (scraper_logs db' ! length (scraper_logs db)) \<noteq> ''running'' \<and>
         (status r = ''success'' \<and>
            log_status (scraper_logs db' ! length (scraper_logs db)) = ''completed'' \<and>
            log_jobs_found (scraper_logs db' ! length (scraper_logs db)) = jobs_found r \<and>
            log_jobs_added (scraper_logs db' ! length (scraper_logs db)) = jobs_added r \<and>
            error_message (scraper_logs db' ! length (scraper_logs db)) = None
          \<or> status r = ''error'' \<and>
            log_status (scraper_logs db' ! length (scraper_logs db)) = ''failed'' \<and>
            error_message (scraper_logs db' ! length (scraper_logs db)) = error r \<and>
            error r \<noteq> None)"
proof (cases rule: service_outcome [where F = F and w = w and K = K and L = L and cfg = cfg and n = n and sc = sc and db = db])
  case (raised_before e)
  with assms show ?thesis by simp
next
  case (completed xs db1 a d)
  with assms show ?thesis by (auto simp: ScraperLog_sel)
next
  case (failed e db1)
  with assms show ?thesis by (auto simp: ScraperLog_sel)
next
  case (raised_in_handler e' db1)
  with assms show ?thesis by simp
qed

theorem log_row_finalized_witness:
  "scrape_and_save_indeed (site_world two_jobs_site) no_faults default_settings IndeedScraper
     empty_db (Some [''a'']) (Some [''x'']) (Some 5) =
     (Inr \<lparr> jobs_found = 1, jobs_added = 1, jobs_duplicate = 0, status = ''success'', error = None \<rparr>,
      stored_engineer) \<and>
   length (scraper_logs stored_engineer) = Suc (length (scraper_logs empty_db)) \<and>
   log_status (scraper_logs stored_engineer ! length (scraper_logs empty_db)) = ''completed'' \<and>
   log_jobs_found (scraper_logs stored_engineer ! length (scraper_logs empty_db)) = 1 \<and>
   log_status (scraper_logs (snd (scrape_and_save_indeed broken_chrome no_faults default_settings
      IndeedScraper empty_db (Some [''a'']) (Some [''x'']) (Some 5))) ! length (scraper_logs empty_db)) =
     ''failed'' \<and>
   error_message (scraper_logs (snd (scrape_and_save_indeed broken_chrome no_faults default_settings
      IndeedScraper empty_db (Some [''a'']) (Some [''x'']) (Some 5))) ! length (scraper_logs empty_db)) =
     Some ''unable to obtain driver for chrome''"
proof -
  note A = log_row_finalized [OF first_run]
  note B = log_row_finalized [OF broken_service_run]
  have e: "length (scraper_logs empty_db) = 0" by (simp add: empty_db_def)
  have c: "length (scraper_logs stored_engineer) = Suc (length (scraper_logs empty_db))"
    "log_status (scraper_logs stored_engineer ! length (scraper_logs empty_db)) = ''completed''"
    "log_jobs_found (scraper_logs stored_engineer ! length (scraper_logs empty_db)) = 1"
    by (simp_all add: e stored_engineer_def)
  have d: "log_status (scraper_logs (snd (scrape_and_save_indeed broken_chrome no_faults default_settings
      IndeedScraper empty_db (Some [''a'']) (Some [''x'']) (Some 5))) ! length (scraper_logs empty_db)) =
     ''failed''"
    "error_message (scraper_logs (snd (scrape_and_save_indeed broken_chrome no_faults default_settings
      IndeedScraper empty_db (Some [''a'']) (Some [''x'']) (Some 5))) ! length (scraper_logs empty_db)) =
     Some ''unable to obtain driver for chrome''"
    by (simp_all add: broken_service_run e)
  from A B first_run c d show ?thesis by blast
qed


text \<open>
  The claim as stated fails on every run: the service never writes
  \<^verbatim>\<open>scrape_ended_at\<close>, so the terminal status is set while the end
  time stamp is still unset.
\<close>

theorem log_end_timestamp_counterexample:
  "scrape_and_save_indeed (site_world two_jobs_site) no_faults default_settings IndeedScraper
     empty_db (Some [''a'']) (Some [''x'']) (Some 5) =
     (Inr \<lparr> jobs_found = 1, jobs_added = 1, jobs_duplicate = 0, status = ''success'', error = None \<rparr>,
      stored_engineer) \<and>
   scraper_logs empty_db = [] \<and>
   log_status (scraper_logs stored_engineer ! 0) = ''completed'' \<and>
   scrape_ended_at (scraper_logs stored_engineer ! 0) = None"
proof -
  have "scraper_logs empty_db = []" by (simp add: empty_db_def)
  moreover have "log_status (scraper_logs stored_engineer ! 0) = ''completed''"
    "scrape_ended_at (scraper_logs stored_engineer ! 0) = None"
    by (simp_all add: stored_engineer_def ScraperLog_def)
  ultimately show ?thesis using first_run by blast
qed


section \<open>The summary\<close>

text \<open>
  C3, as amended. When the two commits of the log row that stand outside every
  handler (the insertion of the row, and the update in the outer handler) do
  not raise, the service returns a summary, whatever the browser, the site and
  storage do for single pages and single listings. Its status is \<open>success\<close>,
  with the counts of the run, when the orchestrator returned and the log row
  was committed, and \<open>error\<close>, with the error text and zero counts,
  otherwise.
\<close>

theorem summary_always_returned:
  assumes "log_insert F = None" and "log_failed F = None"
  shows "\<exists>r db'. scrape_and_save_indeed w F cfg sc db K L n = (Inr r, db') \<and>
     ((\<exists>xs. fst (indeed_scrape w (or_default K (scraping_keywords_list cfg))
                   (or_default L (scraping_locations_list cfg))
                   (or_default n (MAX_JOBS_PER_SCRAPE cfg)) sc) = Inr xs \<and>
            log_complete F = None \<and> status r = ''success'' \<and> error r = None \<and>
            jobs_found r = length xs \<and> jobs_added r + jobs_duplicate r \<le> jobs_found r) \<or>
      (\<exists>e. (fst (indeed_scrape w (or_default K (scraping_keywords_list cfg))
                   (or_default L (scraping_locations_list cfg))
                   (or_default n (MAX_JOBS_PER_SCRAPE cfg)) sc) = Inl e \<or>
             log_complete F = Some e) \<and>
            status r = ''error'' \<and> error r = Some (str_exc e) \<and>
            jobs_found r = 0 \<and> jobs_added r = 0 \<and> jobs_duplicate r = 0))"
proof (cases rule: service_outcome [where F = F and w = w and K = K and L = L and cfg = cfg
      and n = n and sc = sc and db = db])
  case (raised_before e)
  with assms show ?thesis by simp
next
  case (completed xs db1 a d)
  then show ?thesis by simp
next
  case (failed e db1)
  then show ?thesis by auto
next
  case (raised_in_handler e' db1)
  with assms show ?thesis by simp
qed


theorem summary_always_returned_witness:
  "log_insert commit_refused = None \<and> log_failed commit_refused = None \<and>
   fst (scrape_and_save_indeed (site_world two_jobs_site) commit_refused default_settings
      IndeedScraper empty_db (Some [''a'']) (Some [''x'']) (Some 5)) =
     Inr \<lparr> jobs_found = 1, jobs_added = 0, jobs_duplicate = 0, status = ''success'', error = None \<rparr> \<and>
   log_insert no_faults = None \<and> log_failed no_faults = None \<and>
   fst (scrape_and_save_indeed timeout_world no_faults default_settings
      IndeedScraper empty_db (Some [''a'']) (Some [''x'']) (Some 5)) =
     Inr \<lparr> jobs_found = 0, jobs_added = 0, jobs_duplicate = 0, status = ''success'', error = None \<rparr> \<and>
   fst (scrape_and_save_indeed broken_chrome no_faults default_settings
      IndeedScraper empty_db (Some [''a'']) (Some [''x'']) (Some 5)) =
     Inr \<lparr> jobs_found = 0, jobs_added = 0, jobs_duplicate = 0, status = ''error'',
           error = Some ''unable to obtain driver for chrome'' \<rparr>"
proof -
  have h: "log_insert commit_refused = None" "log_failed commit_refused = None"
    "log_insert no_faults = None" "log_failed no_faults = None"
    by (simp_all add: commit_refused_def no_faults_def)
  note A = summary_always_returned [OF h(1,2), of "site_world two_jobs_site" default_settings
      IndeedScraper empty_db "Some [''a'']" "Some [''x'']" "Some 5"]
  note B = summary_always_returned [OF h(3,4), of timeout_world default_settings
      IndeedScraper empty_db "Some [''a'']" "Some [''x'']" "Some 5"]
  note C = summary_always_returned [OF h(3,4), of broken_chrome default_settings
      IndeedScraper empty_db "Some [''a'']" "Some [''x'']" "Some 5"]
  have r: "fst (scrape_and_save_indeed (site_world two_jobs_site) commit_refused default_settings
      IndeedScraper empty_db (Some [''a'']) (Some [''x'']) (Some 5)) =
     Inr \<lparr> jobs_found = 1, jobs_added = 0, jobs_duplicate = 0, status = ''success'', error = None \<rparr>"
    by (simp add: refused_run)
  have t: "fst (scrape_and_save_indeed timeout_world no_faults default_settings
      IndeedScraper empty_db (Some [''a'']) (Some [''x'']) (Some 5)) =
     Inr \<lparr> jobs_found = 0, jobs_added = 0, jobs_duplicate = 0, status = ''success'', error = None \<rparr>"
    by (simp add: timeout_service_run)
  have b: "fst (scrape_and_save_indeed broken_chrome no_faults default_settings
      IndeedScraper empty_db (Some [''a'']) (Some [''x'']) (Some 5)) =
     Inr \<lparr> jobs_found = 0, jobs_added = 0, jobs_duplicate = 0, status = ''error'',
           error = Some ''unable to obtain driver for chrome'' \<rparr>"
    by (simp add: broken_service_run)
  from A B C h r t b show ?thesis by blast
qed


text \<open>
  The claim as stated fails on the values of the status field: the summary
  says \<open>success\<close> and \<open>error\<close>; \<open>completed\<close> and \<open>failed\<close> are the
  values of the log row.
\<close>

theorem summary_status_counterexample:
  "fst (scrape_and_save_indeed (site_world two_jobs_site) no_faults default_settings IndeedScraper
     empty_db (Some [''a'']) (Some [''x'']) (Some 5)) =
     Inr \<lparr> jobs_found = 1, jobs_added = 1, jobs_duplicate = 0, status = ''success'', error = None \<rparr> \<and>
   ''success'' \<noteq> ''completed'' \<and>
   fst (scrape_and_save_indeed broken_chrome no_faults default_settings IndeedScraper
     empty_db (Some [''a'']) (Some [''x'']) (Some 5)) =
     Inr \<lparr> jobs_found = 0, jobs_added = 0, jobs_duplicate = 0, status = ''error'',
           error = Some ''unable to obtain driver for chrome'' \<rparr> \<and>
   ''error'' \<noteq> ''failed''"
proof -
  have "''success'' \<noteq> ''completed''" "''error'' \<noteq> ''failed''" by simp_all
  moreover have "fst (scrape_and_save_indeed (site_world two_jobs_site) no_faults default_settings
     IndeedScraper empty_db (Some [''a'']) (Some [''x'']) (Some 5)) =
     Inr \<lparr> jobs_found = 1, jobs_added = 1, jobs_duplicate = 0, status = ''success'', error = None \<rparr>"
    by (simp add: first_run)
  moreover have "fst (scrape_and_save_indeed broken_chrome no_faults default_settings IndeedScraper
     empty_db (Some [''a'']) (Some [''x'']) (Some 5)) =
     Inr \<lparr> jobs_found = 0, jobs_added = 0, jobs_duplicate = 0, status = ''error'',
           error = Some ''unable to obtain driver for chrome'' \<rparr>"
    by (simp add: broken_service_run)
  ultimately show ?thesis by blast
qed


section \<open>Page faults\<close>

text \<open>
  C8. When the page load or the wait for the readiness marker raises,
  \<^verbatim>\<open>scrape_search_page\<close> returns the empty list and logs the exception.
  So when the browser starts and stops and the pauses do not raise, every run
  of the service completes, whatever happens on single pages: the summary says
  success and the log row \<open>completed\<close>.
\<close>

theorem page_fault_yields_empty_list:
  "(driver_get w (trace s) url \<noteq> None \<or> wait_until w (trace s) url \<noteq> None \<longrightarrow>
      fst (indeed_scrape_search_page w url s) = [] \<and>
      length (error_log (snd (indeed_scrape_search_page w url s))) = Suc (length (error_log s))) \<and>
   (chrome_start w = None \<and> execute_script w = None \<and> chrome_quit w = None \<and>
    (\<forall>h. delay_fault w h = None) \<and> log_insert F = None \<and> log_complete F = None \<longrightarrow>
      (\<exists>r db'. scrape_and_save_indeed w F cfg sc db K L n = (Inr r, db') \<and>
         status r = ''success'' \<and>
         log_status (scraper_logs db' ! length (scraper_logs db)) = ''completed''))"
  using page_fault_empty [of w s url] service_completes [of w F cfg sc db K L n] by blast


theorem page_fault_yields_empty_list_witness:
  "wait_until timeout_world (trace IndeedScraper) ''https://uk.indeed.com/jobs?q=a&l=x'' =
     Some (TimeoutException ''Message: '') \<and>
   fst (indeed_scrape_search_page timeout_world ''https://uk.indeed.com/jobs?q=a&l=x'' IndeedScraper) = [] \<and>
   chrome_start timeout_world = None \<and> execute_script timeout_world = None \<and>
   chrome_quit timeout_world = None \<and> delay_fault timeout_world [] = None \<and>
   log_insert no_faults = None \<and> log_complete no_faults = None \<and>
   scrape_and_save_indeed timeout_world no_faults default_settings IndeedScraper
     empty_db (Some [''a'']) (Some [''x'']) (Some 5) =
   (Inr \<lparr> jobs_found = 0, jobs_added = 0, jobs_duplicate = 0, status = ''success'',
          error = None \<rparr>,
    empty_db\<lparr>scraper_logs :=
        [(ScraperLog 0 [''a''] [''x''])
           \<lparr>log_jobs_found := 0, log_jobs_added := 0, log_status := ''completed''\<rparr>]\<rparr>)"
proof -
  note T = page_fault_yields_empty_list [of timeout_world IndeedScraper
      "''https://uk.indeed.com/jobs?q=a&l=x''" no_faults default_settings IndeedScraper empty_db
      "Some [''a'']" "Some [''x'']" "Some 5"]
  have w: "wait_until timeout_world (trace IndeedScraper) ''https://uk.indeed.com/jobs?q=a&l=x'' =
     Some (TimeoutException ''Message: '')"
    "chrome_start timeout_world = None" "execute_script timeout_world = None"
    "chrome_quit timeout_world = None" "delay_fault timeout_world [] = None"
    "\<forall>h. delay_fault timeout_world h = None"
    by (simp_all add: timeout_world_def)
  have f: "log_insert no_faults = None" "log_complete no_faults = None"
    by (simp_all add: no_faults_def)
  from w(1) w(2,3,4,6) f T
  have "fst (indeed_scrape_search_page timeout_world ''https://uk.indeed.com/jobs?q=a&l=x'' IndeedScraper) = []"
    by simp
  with w f timeout_service_run show ?thesis by blast
qed

end
